theory Spec2Isabelle
  imports Main "HOL-Library.Word"
begin

text \<open>
  A shallow embedding of the GPU kernel runner: the marshalling of kernel arguments
  (\<open>kernel_adapter.hpp\<close>), and from \<open>kernel-runner.cpp\<close> the reset of the working
  copies of inout buffers before each run, the resolution of the launch configuration,
  the check of the required preprocessor definitions, the check of the device index, the
  first parse of the command line and the order of the steps of \<open>main\<close>. Code of
  libraries and of headers that are not among the two source files enters as parameters.
\<close>

section \<open>Outcomes of a step of the runner\<close>

text \<open>
  A function of the runner either returns, ends the process through \<open>exit\<close> (the
  helper \<open>die\<close> calls \<open>exit(EXIT_FAILURE)\<close>), or throws a C++ exception. No
  exception is caught anywhere in the two source files, so a thrown exception ends the
  process abnormally. \<open>EXIT_SUCCESS\<close> is 0 and \<open>EXIT_FAILURE\<close> is 1.
\<close>

datatype 'a outcome = Returned 'a | Exit int | Thrown string

definition EXIT_SUCCESS :: int where
  "EXIT_SUCCESS = 0"

definition EXIT_FAILURE :: int where
  "EXIT_FAILURE = 1"

definition die :: "'a outcome" where
  "die = Exit EXIT_FAILURE"

fun and_then :: "'a outcome \<Rightarrow> ('a \<Rightarrow> 'b outcome) \<Rightarrow> 'b outcome" where
  "and_then (Returned x) f = f x"
| "and_then (Exit c) f = Exit c"
| "and_then (Thrown e) f = Thrown e"

fun returns :: "'a outcome \<Rightarrow> bool" where
  "returns (Returned x) = True"
| "returns (Exit c) = False"
| "returns (Thrown e) = False"

text \<open>The process ended with a failure: a nonzero exit code or an uncaught exception.\<close>

fun fatal :: "'a outcome \<Rightarrow> bool" where
  "fatal (Returned x) = False"
| "fatal (Exit c) = (c \<noteq> 0)"
| "fatal (Thrown e) = True"

section \<open>Data model\<close>

datatype execution_ecosystem_t = cuda | opencl

text \<open>
  \<open>parameter_direction_t\<close>: the sources write \<open>input\<close> or \<open>in\<close> for the first
  enumerator and \<open>output\<close> or \<open>out\<close> for the second.
\<close>

datatype parameter_direction_t = dir_input | dir_output | dir_inout

datatype kind_t = buffer | scalar

type_synonym byte_type = "8 word"

text \<open>A device buffer is modelled by its contents; its size is the length.\<close>

type_synonym device_buffer_type = "byte_type list"

type_synonym device_buffers_map = "string \<rightharpoonup> device_buffer_type"

text \<open>
  The \<open>Scalar\<close> template argument of \<open>push_back_scalar\<close>: a C++ type, with its
  \<open>sizeof\<close>. A typed scalar argument is an \<open>any\<close>: the type it holds and its bytes.
\<close>

record scalar_type =
  type_name :: string
  size_of :: nat

record any =
  held_type :: string
  representation :: "byte_type list"

type_synonym scalar_arguments_map = "string \<rightharpoonup> any"

record single_parameter_details =
  name :: string
  kind :: kind_t
  direction :: parameter_direction_t
  required :: bool
  description :: string

type_synonym parameter_details_type = "single_parameter_details list"

text \<open>
  An entry of the marshalled pointer list: the address of an entry of one of the two
  device-side buffer maps, the address of a typed scalar, or \<open>nullptr\<close>.
\<close>

datatype buffer_collection = inputs | outputs

datatype argument_ptr = buffer_address buffer_collection string | scalar_address string | nullptr

record marshalled_arguments_type =
  pointers :: "argument_ptr list"
  sizes :: "nat list"

text \<open>
  Operations issued to a device, in the order the controlling thread issues them, each
  named after the call of the source. The log is a ghost field of the context: it
  records which call copies or zeroes a buffer and which device is synchronised.
  \<open>enqueueCopyBuffer\<close> and \<open>enqueueFillBuffer\<close> put a command on the OpenCL queue
  and return without waiting for it.
\<close>

datatype device_operation =
    cuda_memory_copy string
  | opencl_enqueueCopyBuffer string
  | cuda_memory_zero string
  | opencl_enqueueFillBuffer string
  | cuda_device_synchronize
  | kernel_launch execution_ecosystem_t nat

text \<open>
  An operation that returns only when the work given to the device of an ecosystem is
  complete. The only synchronisation that the functions modelled below call is
  \<open>cuda::device::get(context.cuda.driver_device_id).synchronize()\<close>.
\<close>

fun synchronizes :: "execution_ecosystem_t \<Rightarrow> device_operation \<Rightarrow> bool" where
  "synchronizes eco cuda_device_synchronize = (eco = cuda)"
| "synchronizes eco (cuda_memory_copy n) = False"
| "synchronizes eco (opencl_enqueueCopyBuffer n) = False"
| "synchronizes eco (cuda_memory_zero n) = False"
| "synchronizes eco (opencl_enqueueFillBuffer n) = False"
| "synchronizes eco (kernel_launch e ri) = False"

text \<open>
  The part of \<open>execution_context_t\<close> that the functions modelled below read and write:
  the ecosystem, the parameter details of the kernel adapter, the option
  \<open>zero_output_buffers\<close>, the device-side buffers and the typed scalar arguments.
\<close>

record execution_context_t =
  ecosystem :: execution_ecosystem_t
  parameter_details :: parameter_details_type
  options_zero_output_buffers :: bool
  device_side_inputs :: device_buffers_map
  device_side_outputs :: device_buffers_map
  scalar_input_arguments_typed :: scalar_arguments_map
  device_log :: "device_operation list"

section \<open>Argument marshalling (\<open>kernel_adapter.hpp\<close>)\<close>

text \<open>\<open>sizeof(cl::Buffer)\<close> is a constant of the OpenCL headers; it is a parameter here.\<close>

definition buffer_map :: "execution_context_t \<Rightarrow> buffer_collection \<Rightarrow> device_buffers_map" where
  "buffer_map context c = (case c of inputs \<Rightarrow> device_side_inputs context
                            | outputs \<Rightarrow> device_side_outputs context)"

definition push_back_buffer ::
  "nat \<Rightarrow> marshalled_arguments_type \<Rightarrow> execution_context_t \<Rightarrow> parameter_direction_t \<Rightarrow> string
    \<Rightarrow> marshalled_arguments_type outcome" where
  "push_back_buffer sizeof_cl_Buffer argument_ptrs context dir buffer_parameter_name =
     (let c = (if dir = dir_input then inputs else outputs) in
      case buffer_map context c buffer_parameter_name of
        None \<Rightarrow> Thrown ''std::out_of_range''
      | Some b \<Rightarrow>
          (if ecosystem context = cuda
           then Returned (argument_ptrs\<lparr>pointers :=
                   pointers argument_ptrs @ [buffer_address c buffer_parameter_name]\<rparr>)
           else Returned (argument_ptrs\<lparr>pointers :=
                   pointers argument_ptrs @ [buffer_address c buffer_parameter_name],
                   sizes := sizes argument_ptrs @ [sizeof_cl_Buffer]\<rparr>)))"

definition push_back_scalar ::
  "scalar_type \<Rightarrow> marshalled_arguments_type \<Rightarrow> execution_context_t \<Rightarrow> string
    \<Rightarrow> marshalled_arguments_type outcome" where
  "push_back_scalar Scalar argument_ptrs context scalar_parameter_name =
     (case scalar_input_arguments_typed context scalar_parameter_name of
        None \<Rightarrow> Thrown ''std::out_of_range''
      | Some a \<Rightarrow>
          (if held_type a \<noteq> type_name Scalar then Thrown ''bad_any_cast''
           else
             (let pushed = argument_ptrs\<lparr>pointers :=
                    pointers argument_ptrs @ [scalar_address scalar_parameter_name]\<rparr>
              in if ecosystem context = opencl
                 then Returned (pushed\<lparr>sizes := sizes pushed @ [size_of Scalar]\<rparr>)
                 else Returned pushed)))"

text \<open>
  \<open>marshal_kernel_arguments_inner\<close> is pure virtual: each kernel adapter writes its
  own, as a sequence of calls of \<open>push_back_buffer\<close> and \<open>push_back_scalar\<close>. An
  adapter's body is given here by that sequence of calls.
\<close>

datatype marshal_call =
    call_push_back_buffer parameter_direction_t string
  | call_push_back_scalar scalar_type string

fun run_marshal_call ::
  "nat \<Rightarrow> execution_context_t \<Rightarrow> marshalled_arguments_type \<Rightarrow> marshal_call
    \<Rightarrow> marshalled_arguments_type outcome" where
  "run_marshal_call sz context arguments (call_push_back_buffer dir n) =
     push_back_buffer sz arguments context dir n"
| "run_marshal_call sz context arguments (call_push_back_scalar Scalar n) =
     push_back_scalar Scalar arguments context n"

fun marshal_kernel_arguments_inner ::
  "nat \<Rightarrow> marshal_call list \<Rightarrow> marshalled_arguments_type \<Rightarrow> execution_context_t
    \<Rightarrow> marshalled_arguments_type outcome" where
  "marshal_kernel_arguments_inner sz [] arguments context = Returned arguments"
| "marshal_kernel_arguments_inner sz (c # cs) arguments context =
     and_then (run_marshal_call sz context arguments c)
       (\<lambda>arguments'. marshal_kernel_arguments_inner sz cs arguments' context)"

definition marshal_kernel_arguments ::
  "nat \<Rightarrow> marshal_call list \<Rightarrow> execution_context_t \<Rightarrow> marshalled_arguments_type outcome" where
  "marshal_kernel_arguments sz calls context =
     and_then (marshal_kernel_arguments_inner sz calls \<lparr>pointers = [], sizes = []\<rparr> context)
       (\<lambda>argument_ptrs_and_maybe_sizes.
          if ecosystem context = cuda
          then Returned (argument_ptrs_and_maybe_sizes\<lparr>pointers :=
                  pointers argument_ptrs_and_maybe_sizes @ [nullptr]\<rparr>)
          else Returned argument_ptrs_and_maybe_sizes)"

section \<open>Resetting the working copies of the inout buffers (\<open>kernel-runner.cpp\<close>)\<close>

text \<open>
  \<open>kernel_adapter::buffer_names\<close>: the names of the buffer parameters of one direction.
  The source inserts them into a \<open>parameter_name_set\<close>, and its callers iterate over
  that set. The type is declared in a header that is not among the sources, so the order
  of the iteration is a parameter: \<open>names_in_set_order xs\<close> is the sequence in which a
  set holding the names \<open>xs\<close> is iterated.
\<close>

definition buffer_names ::
  "(string list \<Rightarrow> string list) \<Rightarrow> parameter_details_type \<Rightarrow> parameter_direction_t \<Rightarrow> string list" where
  "buffer_names names_in_set_order all_params dir =
     names_in_set_order
       (map name (filter (\<lambda>spd. direction spd = dir \<and> kind spd = buffer) all_params))"

text \<open>
  \<open>copy_buffer_on_device\<close> returns the new contents of the destination. Under CUDA it
  copies \<open>destination.cuda.size()\<close> bytes, under OpenCL the \<open>CL_MEM_SIZE\<close> of the
  origin. A copy that would read past the end of the origin (CUDA) or write past the end
  of the destination (OpenCL) is rejected by the driver, which the wrappers turn into an
  exception. Under OpenCL the copy is a command of the queue of the context; the contents
  are those that a later command of the same queue finds.
\<close>

definition copy_buffer_on_device ::
  "execution_ecosystem_t \<Rightarrow> device_buffer_type \<Rightarrow> device_buffer_type \<Rightarrow> device_buffer_type outcome" where
  "copy_buffer_on_device eco destination origin =
     (if eco = cuda
      then (if length destination \<le> length origin
            then Returned (take (length destination) origin)
            else Thrown ''cuda::runtime_error'')
      else (let size = length origin in
            if size \<le> length destination
            then Returned (take size origin @ drop size destination)
            else Thrown ''cl::Error''))"

definition copy_operation :: "execution_ecosystem_t \<Rightarrow> string \<Rightarrow> device_operation" where
  "copy_operation eco n = (if eco = cuda then cuda_memory_copy n else opencl_enqueueCopyBuffer n)"

fun reset_each_working_copy :: "string list \<Rightarrow> execution_context_t \<Rightarrow> execution_context_t outcome" where
  "reset_each_working_copy [] context = Returned context"
| "reset_each_working_copy (inout_buffer_name # rest) context =
     (case device_side_inputs context inout_buffer_name of
        None \<Rightarrow> Thrown ''std::out_of_range''
      | Some pristine_copy \<Rightarrow>
          (case device_side_outputs context inout_buffer_name of
             None \<Rightarrow> Thrown ''std::out_of_range''
           | Some work_copy \<Rightarrow>
               and_then (copy_buffer_on_device (ecosystem context) work_copy pristine_copy)
                 (\<lambda>copied. reset_each_working_copy rest
                    (context\<lparr>device_side_outputs :=
                         (device_side_outputs context)(inout_buffer_name \<mapsto> copied),
                       device_log := device_log context @
                         [copy_operation (ecosystem context) inout_buffer_name]\<rparr>))))"

definition reset_working_copy_of_inout_buffers ::
  "(string list \<Rightarrow> string list) \<Rightarrow> execution_context_t \<Rightarrow> execution_context_t outcome" where
  "reset_working_copy_of_inout_buffers names_in_set_order context =
     (let inout_buffer_names =
            buffer_names names_in_set_order (parameter_details context) dir_inout
      in if inout_buffer_names = [] then Returned context
         else and_then (reset_each_working_copy inout_buffer_names context)
                (\<lambda>c. Returned (c\<lparr>device_log := device_log c @ [cuda_device_synchronize]\<rparr>)))"

definition zero_operation :: "execution_ecosystem_t \<Rightarrow> string \<Rightarrow> device_operation" where
  "zero_operation eco n = (if eco = cuda then cuda_memory_zero n else opencl_enqueueFillBuffer n)"

fun zero_each_output_buffer :: "string list \<Rightarrow> execution_context_t \<Rightarrow> execution_context_t outcome" where
  "zero_each_output_buffer [] context = Returned context"
| "zero_each_output_buffer (buffer_name # rest) context =
     (case device_side_outputs context buffer_name of
        None \<Rightarrow> Thrown ''std::out_of_range''
      | Some b \<Rightarrow>
          zero_each_output_buffer rest
            (context\<lparr>device_side_outputs :=
                 (device_side_outputs context)(buffer_name \<mapsto> replicate (length b) 0),
               device_log := device_log context @
                 [zero_operation (ecosystem context) buffer_name]\<rparr>))"

definition zero_output_buffers ::
  "(string list \<Rightarrow> string list) \<Rightarrow> execution_context_t \<Rightarrow> execution_context_t outcome" where
  "zero_output_buffers names_in_set_order context =
     (let output_only_buffers =
            buffer_names names_in_set_order (parameter_details context) dir_output
      in if output_only_buffers = [] then Returned context
         else zero_each_output_buffer output_only_buffers context)"

text \<open>
  \<open>perform_single_run\<close> first prepares the run (optional zeroing, then the reset of the
  working copies) and then launches the kernel. The two launch functions
  \<open>launch_time_and_sync_cuda_kernel\<close> and \<open>launch_time_and_sync_opencl_kernel\<close> are
  defined elsewhere; their effect on the context is the parameter \<open>launch\<close>.
  \<open>prepare_single_run\<close> is the part of \<open>perform_single_run\<close> before the launch: its
  result is the context immediately before the kernel launch of that run.
\<close>

definition prepare_single_run ::
  "(string list \<Rightarrow> string list) \<Rightarrow> execution_context_t \<Rightarrow> execution_context_t outcome" where
  "prepare_single_run names_in_set_order context =
     and_then (if options_zero_output_buffers context
               then zero_output_buffers names_in_set_order context
               else Returned context)
       (reset_working_copy_of_inout_buffers names_in_set_order)"

definition perform_single_run ::
  "(string list \<Rightarrow> string list) \<Rightarrow> (nat \<Rightarrow> execution_context_t \<Rightarrow> execution_context_t outcome)
    \<Rightarrow> execution_context_t \<Rightarrow> nat \<Rightarrow> execution_context_t outcome" where
  "perform_single_run names_in_set_order launch context run_index =
     and_then (prepare_single_run names_in_set_order context)
       (\<lambda>c. launch run_index
          (c\<lparr>device_log := device_log c @ [kernel_launch (ecosystem c) run_index]\<rparr>))"

text \<open>The loop of \<open>main\<close> over the run indices.\<close>

fun perform_runs ::
  "(string list \<Rightarrow> string list) \<Rightarrow> (nat \<Rightarrow> execution_context_t \<Rightarrow> execution_context_t outcome)
    \<Rightarrow> nat list \<Rightarrow> execution_context_t \<Rightarrow> execution_context_t outcome" where
  "perform_runs names_in_set_order launch [] context = Returned context"
| "perform_runs names_in_set_order launch (ri # ris) context =
     and_then (perform_single_run names_in_set_order launch context ri)
       (perform_runs names_in_set_order launch ris)"

section \<open>Launch configuration\<close>

text \<open>A triple of dimensions, one value per axis 0, 1 and 2.\<close>

datatype dims = Dims nat nat nat

fun axis :: "dims \<Rightarrow> nat \<Rightarrow> nat" where
  "axis (Dims x y z) i = (if i = 0 then x else if i = 1 then y else z)"

record optional_launch_config_components =
  block_dimensions :: "dims option"
  grid_dimensions :: "dims option"
  overall_grid_dimensions :: "dims option"
  dynamic_shared_memory_size :: "nat option"

text \<open>
  \<open>kernel_adapter::deduce_launch_config\<close> (the default of the virtual function) and
  \<open>kernel_adapter::make_launch_config\<close>. \<open>is_sufficient\<close> is declared with
  \<open>optional_launch_config_components\<close>, in a header that is not among the sources: it is
  a parameter. An adapter may override \<open>deduce_launch_config\<close>: \<open>make_launch_config\<close>
  takes the adapter's function.
\<close>

definition deduce_launch_config ::
  "(optional_launch_config_components \<Rightarrow> bool) \<Rightarrow> optional_launch_config_components
    \<Rightarrow> optional_launch_config_components outcome" where
  "deduce_launch_config is_sufficient forced =
     (let components =
            (if dynamic_shared_memory_size forced = None
             then forced\<lparr>dynamic_shared_memory_size := Some 0\<rparr> else forced)
      in if is_sufficient components then Returned components
         else Thrown ''std::runtime_error'')"

definition make_launch_config ::
  "(optional_launch_config_components \<Rightarrow> bool)
    \<Rightarrow> (optional_launch_config_components \<Rightarrow> optional_launch_config_components outcome)
    \<Rightarrow> optional_launch_config_components \<Rightarrow> optional_launch_config_components outcome" where
  "make_launch_config is_sufficient adapter_deduce_launch_config forced =
     (if is_sufficient forced then Returned forced else adapter_deduce_launch_config forced)"

text \<open>The quotient rounded up, for a positive divisor.\<close>

definition ceil_div :: "nat \<Rightarrow> nat \<Rightarrow> nat" where
  "ceil_div a b = (a + b - 1) div b"

text \<open>
  Modelled from the spec: \<open>optional_launch_config_components::deduce_missing\<close> is called by
  \<open>configure_launch\<close> and defined in a header that is not among the sources. Section 4.4
  of the specification, steps 1 to 3: both grid and overall dimensions set is fatal; block
  and grid give \<open>overall[i] = grid[i] * block[i]\<close>; block and overall give
  \<open>grid[i] = ceil(overall[i] / block[i])\<close>. The specification takes the dimensions to be
  positive; the division by a block dimension of 0 is a failure of the model.
\<close>

definition deduce_missing ::
  "optional_launch_config_components \<Rightarrow> optional_launch_config_components outcome" where
  "deduce_missing c =
     (if grid_dimensions c \<noteq> None \<and> overall_grid_dimensions c \<noteq> None then die
      else
        (case block_dimensions c of
           None \<Rightarrow> Returned c
         | Some b \<Rightarrow>
             (case grid_dimensions c of
                Some g \<Rightarrow>
                  Returned (c\<lparr>overall_grid_dimensions :=
                     Some (Dims (axis g 0 * axis b 0) (axis g 1 * axis b 1) (axis g 2 * axis b 2))\<rparr>)
              | None \<Rightarrow>
                  (case overall_grid_dimensions c of
                     None \<Rightarrow> Returned c
                   | Some ov \<Rightarrow>
                       (if axis b 0 = 0 \<or> axis b 1 = 0 \<or> axis b 2 = 0
                        then Thrown ''division by zero''
                        else Returned (c\<lparr>grid_dimensions :=
                               Some (Dims (ceil_div (axis ov 0) (axis b 0))
                                          (ceil_div (axis ov 1) (axis b 1))
                                          (ceil_div (axis ov 2) (axis b 2)))\<rparr>))))))"

text \<open>
  Modelled from the spec: \<open>full_blocks\<close>, of the same missing header. Section 4.4, step 3:
  true iff \<open>grid[i] * block[i] == overall[i]\<close> for all axes.
\<close>

definition full_blocks :: "dims \<Rightarrow> dims \<Rightarrow> dims \<Rightarrow> bool" where
  "full_blocks bd gd ogd =
     (axis gd 0 * axis bd 0 = axis ogd 0 \<and>
      axis gd 1 * axis bd 1 = axis ogd 1 \<and>
      axis gd 2 * axis bd 2 = axis ogd 2)"

text \<open>
  \<open>configure_launch\<close>, from the value \<open>lc_components\<close> that \<open>make_launch_config\<close>
  returned: the missing components are deduced, then the three \<open>value()\<close> calls throw
  when a component is still unset. The result is the resolved geometry that the function
  logs.
\<close>

record resolved_launch_config =
  bd :: dims
  gd :: dims
  ogd :: dims
  shared_memory :: nat
  covers_full_blocks :: bool

definition configure_launch ::
  "optional_launch_config_components \<Rightarrow> resolved_launch_config outcome" where
  "configure_launch lc_components =
     and_then (deduce_missing lc_components)
       (\<lambda>lc.
          case grid_dimensions lc of
            None \<Rightarrow> Thrown ''bad_optional_access''
          | Some g \<Rightarrow>
              (case block_dimensions lc of
                 None \<Rightarrow> Thrown ''bad_optional_access''
               | Some b \<Rightarrow>
                   (case overall_grid_dimensions lc of
                      None \<Rightarrow> Thrown ''bad_optional_access''
                    | Some ov \<Rightarrow>
                        Returned \<lparr>bd = b, gd = g, ogd = ov,
                          shared_memory =
                            (case dynamic_shared_memory_size lc of None \<Rightarrow> 0 | Some m \<Rightarrow> m),
                          covers_full_blocks = full_blocks b g ov\<rparr>)))"

section \<open>Required preprocessor definitions\<close>

text \<open>
  \<open>ensure_necessary_terms_were_defined\<close>. \<open>get_defined_terms\<close> (the terms of the
  \<open>--define\<close> strings) and the adapter's
  \<open>cmdline_required_preprocessor_definition_terms\<close> are defined outside the sources:
  the first is a parameter, the second is given by its value. \<open>util::keys\<close>,
  \<open>util::union_\<close> and \<open>util::difference\<close> are the keys of a map, set union and set
  difference. \<open>required_but_undefined\<close> is the set that the function prints before it
  prints the usage text and exits.
\<close>

definition required_but_undefined ::
  "(string set \<Rightarrow> string set) \<Rightarrow> string set \<Rightarrow> string set \<Rightarrow> (string \<rightharpoonup> string) \<Rightarrow> string set" where
  "required_but_undefined get_defined_terms terms_required_to_be_defined
       preprocessor_definitions preprocessor_value_definitions =
     (let terms_defined_by_define_options = get_defined_terms preprocessor_definitions;
          terms_defined_by_specific_options = dom preprocessor_value_definitions;
          all_defined_terms = terms_defined_by_define_options \<union> terms_defined_by_specific_options
      in terms_required_to_be_defined - all_defined_terms)"

definition ensure_necessary_terms_were_defined ::
  "(string set \<Rightarrow> string set) \<Rightarrow> string set \<Rightarrow> string set \<Rightarrow> (string \<rightharpoonup> string) \<Rightarrow> unit outcome" where
  "ensure_necessary_terms_were_defined get_defined_terms terms_required_to_be_defined
       preprocessor_definitions preprocessor_value_definitions =
     (if required_but_undefined get_defined_terms terms_required_to_be_defined
           preprocessor_definitions preprocessor_value_definitions \<noteq> {}
      then Exit EXIT_FAILURE
      else Returned ())"

section \<open>Validity of the device index\<close>

text \<open>
  What the two ecosystems report: the value of \<open>cuda::device::count()\<close>, and for each
  OpenCL platform whether it generates PTX and how many GPU devices its context has.
\<close>

record opencl_platform =
  platform_uses_ptx :: bool
  platform_gpu_devices :: nat

record device_environment =
  cuda_device_count :: int
  opencl_platforms :: "opencl_platform list"

text \<open>
  \<open>ensure_gpu_device_validity\<close>. The comparison \<open>platforms.size() <= actual_platform_id\<close>
  converts the \<open>int\<close> to an unsigned type, so a negative platform id compares as larger
  than every size. In both branches the local variable \<open>device_count\<close> is assigned; the
  final test reads \<open>cuda::device::count()\<close>.
\<close>

definition ensure_gpu_device_validity ::
  "device_environment \<Rightarrow> execution_ecosystem_t \<Rightarrow> int option \<Rightarrow> int \<Rightarrow> bool \<Rightarrow> unit outcome" where
  "ensure_gpu_device_validity denv eco platform_id device_id need_ptx =
     and_then
       (case eco of
          opencl \<Rightarrow>
            (let actual_platform_id = (case platform_id of None \<Rightarrow> 0 | Some i \<Rightarrow> i);
                 platforms = opencl_platforms denv
             in if platforms = [] then die
                else if actual_platform_id < 0 \<or> int (length platforms) \<le> actual_platform_id then die
                else
                  (let platform = platforms ! nat actual_platform_id in
                   if need_ptx \<and> \<not> platform_uses_ptx platform then die
                   else if platform_gpu_devices platform = 0 then die
                   else Returned (int (platform_gpu_devices platform))))
        | cuda \<Rightarrow>
            (let device_count = cuda_device_count denv in
             if device_count = 0 then die else Returned device_count))
       (\<lambda>device_count.
          if device_id < 0 \<or> device_id \<ge> cuda_device_count denv then die else Returned ())"

text \<open>
  The number of devices of the selected ecosystem: the value the function assigns to
  \<open>device_count\<close>.
\<close>

definition selected_device_count :: "device_environment \<Rightarrow> execution_ecosystem_t \<Rightarrow> int option \<Rightarrow> int" where
  "selected_device_count denv eco platform_id =
     (case eco of
        cuda \<Rightarrow> cuda_device_count denv
      | opencl \<Rightarrow>
          (let i = (case platform_id of None \<Rightarrow> 0 | Some i \<Rightarrow> i) in
           if 0 \<le> i \<and> i < int (length (opencl_platforms denv))
           then int (platform_gpu_devices (opencl_platforms denv ! nat i)) else 0))"


section \<open>The first parse of the command line\<close>

text \<open>
  The result of the \<open>cxxopts\<close> parse, as \<open>parse_command_line_initially\<close> reads it. An
  option that the function tests with \<open>contains\<close> or \<open>count\<close> is an \<open>option\<close> value
  (\<open>None\<close>: not on the command line); an option that has a default and is only read with
  \<open>as\<close> is its value. \<open>arg_block_dimensions\<close> is \<open>--block-dimensions\<close>, and so on.
\<close>

record parse_result =
  arg_help :: bool
  arg_list_kernels :: bool
  arg_kernel_source :: "string option"
  arg_kernel_function :: "string option"
  arg_kernel_key :: "string option"
  arg_cuda :: "bool option"
  arg_opencl :: "bool option"
  arg_platform_id :: "int option"
  arg_device :: int
  arg_num_runs :: int
  arg_kernel_sources_dir :: string
  arg_input_buffer_dir :: string
  arg_output_buffer_dir :: string
  arg_write_ptx :: "bool option"
  arg_generate_line_info :: "bool option"
  arg_ptx_output_file :: "string option"
  arg_write_output :: bool
  arg_compile_only :: bool
  arg_language_standard :: "string option"
  arg_debug_mode :: bool
  arg_zero_output_buffers :: bool
  arg_time_execution :: bool
  arg_block_dimensions :: "32 word list option"
  arg_grid_dimensions :: "32 word list option"
  arg_overall_grid_dimensions :: "32 word list option"
  arg_dynamic_shared_memory_size :: "32 word option"
  arg_define :: "string list option"
  arg_include_path :: "string list option"
  arg_include :: "string list option"

text \<open>
  What the function asks of the file system, of the registry of kernel adapters and of
  helpers that are defined outside the sources.
\<close>

record system_environment =
  file_exists :: "string \<Rightarrow> bool"
  is_directory :: "string \<Rightarrow> bool"
  can_produce_subclass :: "string \<Rightarrow> bool"
  is_valid_identifier :: "string \<Rightarrow> bool"
  kernel_source_file_suffix :: "execution_ecosystem_t \<Rightarrow> string"
  maybe_prepend_base_dir :: "string \<Rightarrow> string \<Rightarrow> string"
  path_filename :: "string \<Rightarrow> string"
  to_lowercase :: "string \<Rightarrow> string"

record kernel_info =
  key :: string
  function_name :: string
  source_file :: string

text \<open>
  \<open>kernel_inspecific_cmdline_options_t\<close>. Its declaration is not among the sources; the
  fields are those that the function assigns. \<open>overwrite_allowed\<close> is never assigned by
  the function and keeps the value of the default-constructed structure, \<open>False\<close> here.
  The field \<open>zero_output_buffers\<close> is \<open>zero_output_buffers_option\<close>, since the function
  of that name is modelled above; the nested \<open>buffer_base_paths\<close> is flattened.
\<close>

record kernel_inspecific_cmdline_options_t =
  gpu_ecosystem :: execution_ecosystem_t
  gpu_device_id :: int
  platform_id :: int
  kernel :: kernel_info
  kernel_sources_base_path :: string
  num_runs :: int
  buffer_base_paths_input :: string
  buffer_base_paths_output :: string
  write_ptx_to_file :: bool
  generate_line_info :: bool
  ptx_output_file :: string
  overwrite_allowed :: bool
  write_output_buffers_to_files :: bool
  compile_only :: bool
  language_standard :: "string option"
  compile_in_debug_mode :: bool
  zero_output_buffers_option :: bool
  time_with_events :: bool
  forced_launch_config_components :: optional_launch_config_components
  preprocessor_definitions :: "string set"
  include_dir_paths :: "string list"
  preinclude_files :: "string list"

text \<open>Lines 402 to 416: the two requests that end the process before anything is parsed.\<close>

definition need_to_exit :: "parse_result \<Rightarrow> unit outcome" where
  "need_to_exit pr =
     (if arg_list_kernels pr then Exit EXIT_SUCCESS
      else if \<not> (arg_kernel_key pr \<noteq> None \<or> arg_kernel_function pr \<noteq> None
                  \<or> arg_kernel_source pr \<noteq> None)
      then (if arg_help pr then Exit EXIT_SUCCESS else Exit EXIT_FAILURE)
      else Returned ())"

text \<open>Lines 436 to 445: the ecosystem; the result also carries \<open>use_opencl\<close>.\<close>

definition select_ecosystem :: "parse_result \<Rightarrow> (bool \<times> execution_ecosystem_t) outcome" where
  "select_ecosystem pr =
     (let specified_cuda = (arg_cuda pr \<noteq> None);
          specified_opencl = (arg_opencl pr \<noteq> None);
          use_opencl = (case arg_opencl pr of Some v \<Rightarrow> v | None \<Rightarrow> False);
          use_cuda = (case arg_cuda pr of Some v \<Rightarrow> v | None \<Rightarrow> True)
      in if \<not> use_cuda \<and> \<not> use_opencl then die
         else if use_cuda \<and> use_opencl \<and> specified_cuda \<and> specified_opencl then die
         else Returned (use_opencl,
                if (if use_cuda \<and> use_opencl then False else use_cuda) then cuda else opencl))"

text \<open>Lines 448 to 458: the device index and the platform index.\<close>

definition select_device_and_platform :: "parse_result \<Rightarrow> bool \<Rightarrow> (int \<times> int) outcome" where
  "select_device_and_platform pr use_opencl =
     (if arg_device pr < 0 then die
      else (case arg_platform_id pr of
              Some p \<Rightarrow> (if \<not> use_opencl then die else Returned (arg_device pr, p))
            | None \<Rightarrow> Returned (arg_device pr, 0)))"

text \<open>Lines 468 to 479: the function name and the key, when given, must be acceptable.\<close>

definition check_kernel_names :: "system_environment \<Rightarrow> parse_result \<Rightarrow> unit outcome" where
  "check_kernel_names env pr =
     (case arg_kernel_function pr of
        Some f \<Rightarrow> if \<not> is_valid_identifier env f then Thrown ''std::invalid_argument''
                  else (case arg_kernel_key pr of
                          Some k \<Rightarrow> if k = [] then Thrown ''std::invalid_argument'' else Returned ()
                        | None \<Rightarrow> Returned ())
      | None \<Rightarrow> (case arg_kernel_key pr of
                   Some k \<Rightarrow> if k = [] then Thrown ''std::invalid_argument'' else Returned ()
                 | None \<Rightarrow> Returned ()))"

text \<open>Lines 481 to 488: the key after its last character among \<open>/-;.[]{}(),\<close>.\<close>

definition clipped_key :: "parse_result \<Rightarrow> string" where
  "clipped_key pr =
     (case arg_kernel_key pr of
        Some k \<Rightarrow> rev (takeWhile (\<lambda>c. c \<notin> set ''/-;.[]{}(),'') (rev k))
      | None \<Rightarrow> [])"

text \<open>
  Lines 490 to 519: the inferred function name and key. At this point the field
  \<open>kernel.source_file\<close> has not been assigned: it is the empty path.
\<close>

definition infer_kernel_names :: "system_environment \<Rightarrow> parse_result \<Rightarrow> kernel_info" where
  "infer_kernel_names env pr =
     (let got_function_name = (arg_kernel_function pr \<noteq> None);
          got_source_file_path = (arg_kernel_source pr \<noteq> None);
          got_key = (arg_kernel_key pr \<noteq> None);
          unassigned_source_file = [];
          function_name0 = (case arg_kernel_function pr of Some f \<Rightarrow> f | None \<Rightarrow> []);
          key0 = (case arg_kernel_key pr of Some k \<Rightarrow> k | None \<Rightarrow> []);
          function_name1 =
            (if \<not> got_function_name \<and> got_source_file_path \<and> \<not> got_key
             then (let usable_key = is_valid_identifier env (clipped_key pr);
                       usable_source_file_path =
                         is_valid_identifier env (path_filename env unassigned_source_file)
                   in if usable_source_file_path \<and> \<not> usable_key
                      then path_filename env unassigned_source_file
                      else if usable_key \<and> \<not> usable_source_file_path then clipped_key pr
                      else function_name0)
             else function_name0);
          key1 =
            (if \<not> got_key \<and> (got_source_file_path \<or> got_function_name)
             then (if got_source_file_path then path_filename env unassigned_source_file
                   else function_name1)
             else key0)
      in \<lparr>key = key1, function_name = function_name1, source_file = unassigned_source_file\<rparr>)"

text \<open>Lines 521 to 541: the path of the source file, which must exist when it was inferred.\<close>

definition resolve_source_file ::
  "system_environment \<Rightarrow> parse_result \<Rightarrow> execution_ecosystem_t \<Rightarrow> kernel_info \<Rightarrow> string outcome" where
  "resolve_source_file env pr eco k =
     (let got_function_name = (arg_kernel_function pr \<noteq> None);
          got_source_file_path = (arg_kernel_source pr \<noteq> None);
          got_key = (arg_kernel_key pr \<noteq> None);
          source_file_path =
            (if \<not> got_source_file_path \<and> (got_key \<or> got_function_name)
             then (if got_function_name then function_name k else clipped_key pr)
                    @ ''.'' @ kernel_source_file_suffix env eco
             else (case arg_kernel_source pr of Some p \<Rightarrow> p | None \<Rightarrow> []));
          resolved = maybe_prepend_base_dir env (arg_kernel_sources_dir pr) source_file_path
      in if \<not> got_source_file_path \<and> \<not> file_exists env resolved
         then (if arg_help pr then Exit EXIT_SUCCESS else die)
         else Returned resolved)"

text \<open>Lines 549 to 552.\<close>

definition check_num_runs :: "parse_result \<Rightarrow> int outcome" where
  "check_num_runs pr = (if arg_num_runs pr \<le> 0 then die else Returned (arg_num_runs pr))"

text \<open>Lines 556 to 570: an existing PTX output file may not be overwritten.\<close>

definition check_ptx_output_file :: "system_environment \<Rightarrow> parse_result \<Rightarrow> string outcome" where
  "check_ptx_output_file env pr =
     (let write_ptx_to_file = (case arg_write_ptx pr of Some v \<Rightarrow> v | None \<Rightarrow> False);
          default_overwrite_allowed = False
      in if write_ptx_to_file
         then (case arg_ptx_output_file pr of
                 Some f \<Rightarrow> if file_exists env f \<and> \<not> default_overwrite_allowed
                           then Thrown ''std::invalid_argument'' else Returned f
               | None \<Rightarrow> Returned [])
         else Returned [])"

text \<open>Lines 572 to 580: the three base directories must exist and be directories.\<close>

fun check_directories :: "system_environment \<Rightarrow> string list \<Rightarrow> unit outcome" where
  "check_directories env [] = Returned ()"
| "check_directories env (path # paths) =
     (if \<not> file_exists env path then die
      else if \<not> is_directory env path then die
      else check_directories env paths)"

text \<open>Lines 586 to 598.\<close>

definition check_language_standard :: "system_environment \<Rightarrow> parse_result \<Rightarrow> string option outcome" where
  "check_language_standard env pr =
     (case arg_language_standard pr of
        None \<Rightarrow> Returned None
      | Some given \<Rightarrow>
          (let language_standard = to_lowercase env given in
           if language_standard = ''c++11'' \<or> language_standard = ''c++14''
              \<or> language_standard = ''c++17''
           then Returned (Some language_standard)
           else Exit EXIT_FAILURE))"

text \<open>
  Lines 603 to 637: the forced components of the launch configuration. A list of fewer
  than three dimensions is filled up with 1.
\<close>

fun padded_dims :: "32 word list \<Rightarrow> dims" where
  "padded_dims [] = Dims 1 1 1"
| "padded_dims [a] = Dims (unat a) 1 1"
| "padded_dims [a, b] = Dims (unat a) (unat b) 1"
| "padded_dims (a # b # c # rest) = Dims (unat a) (unat b) (unat c)"

definition forced_components :: "parse_result \<Rightarrow> optional_launch_config_components outcome" where
  "forced_components pr =
     and_then
       (case arg_block_dimensions pr of
          None \<Rightarrow> Returned None
        | Some ds \<Rightarrow> if ds = [] \<or> length ds > 3 then Thrown ''std::invalid_argument''
                     else Returned (Some (padded_dims ds)))
       (\<lambda>block.
          if arg_grid_dimensions pr \<noteq> None \<and> arg_overall_grid_dimensions pr \<noteq> None then die
          else
            and_then
              (case arg_grid_dimensions pr of
                 None \<Rightarrow> Returned None
               | Some ds \<Rightarrow> if ds = [] \<or> length ds > 3 then die
                            else Returned (Some (padded_dims ds)))
              (\<lambda>grid.
                 and_then
                   (case arg_overall_grid_dimensions pr of
                      None \<Rightarrow> Returned None
                    | Some ds \<Rightarrow> if ds = [] \<or> length ds > 3 then die
                                 else Returned (Some (padded_dims ds)))
                   (\<lambda>overall.
                      Returned \<lparr>block_dimensions = block, grid_dimensions = grid,
                        overall_grid_dimensions = overall,
                        dynamic_shared_memory_size =
                          map_option unat (arg_dynamic_shared_memory_size pr)\<rparr>)))"

text \<open>Lines 666 to 668: the key must be registered.\<close>

definition check_registered :: "system_environment \<Rightarrow> string \<Rightarrow> unit outcome" where
  "check_registered env k = (if \<not> can_produce_subclass env k then die else Returned ())"

definition parse_command_line_initially ::
  "system_environment \<Rightarrow> parse_result \<Rightarrow> kernel_inspecific_cmdline_options_t outcome" where
  "parse_command_line_initially env pr =
     and_then (need_to_exit pr) (\<lambda>_.
     and_then (select_ecosystem pr) (\<lambda>(use_opencl, eco).
     and_then (select_device_and_platform pr use_opencl) (\<lambda>(device_id, platform).
     and_then (check_kernel_names env pr) (\<lambda>_.
     and_then (resolve_source_file env pr eco (infer_kernel_names env pr)) (\<lambda>resolved_source_file.
     and_then (check_num_runs pr) (\<lambda>runs.
     and_then (check_ptx_output_file env pr) (\<lambda>ptx_file.
     and_then (check_directories env
                 [arg_input_buffer_dir pr, arg_output_buffer_dir pr, arg_kernel_sources_dir pr]) (\<lambda>_.
     and_then (check_language_standard env pr) (\<lambda>standard.
     and_then (forced_components pr) (\<lambda>forced.
     and_then (check_registered env (key (infer_kernel_names env pr))) (\<lambda>_.
       Returned
         \<lparr>gpu_ecosystem = eco,
          gpu_device_id = device_id,
          platform_id = platform,
          kernel = (infer_kernel_names env pr)\<lparr>source_file := resolved_source_file\<rparr>,
          kernel_sources_base_path = arg_kernel_sources_dir pr,
          num_runs = runs,
          buffer_base_paths_input = arg_input_buffer_dir pr,
          buffer_base_paths_output = arg_output_buffer_dir pr,
          write_ptx_to_file = (case arg_write_ptx pr of Some v \<Rightarrow> v | None \<Rightarrow> False),
          generate_line_info = (case arg_generate_line_info pr of Some v \<Rightarrow> v | None \<Rightarrow> True),
          ptx_output_file = ptx_file,
          overwrite_allowed = False,
          write_output_buffers_to_files = arg_write_output pr,
          compile_only = arg_compile_only pr,
          language_standard = standard,
          compile_in_debug_mode = arg_debug_mode pr,
          zero_output_buffers_option = arg_zero_output_buffers pr,
          time_with_events = arg_time_execution pr,
          forced_launch_config_components = forced,
          preprocessor_definitions = (case arg_define pr of Some ds \<Rightarrow> set ds | None \<Rightarrow> {}),
          include_dir_paths = (case arg_include_path pr of Some ps \<Rightarrow> ps | None \<Rightarrow> []),
          preinclude_files = (case arg_include pr of Some ps \<Rightarrow> ps | None \<Rightarrow> [])\<rparr>)))))))))))"

section \<open>The sequence of \<open>main\<close>\<close>

text \<open>
  The steps that \<open>main\<close> takes after the first parse, in the order of the source. What
  the compiler, the drivers and the file system do at a step is outside the sources: the
  parameter \<open>world\<close> gives, for each step, whether it returns or ends the process. The
  validity check of the device is the function modelled above.
\<close>

datatype main_step =
    step_ensure_gpu_device_validity
  | step_initialize_device
  | step_produce_kernel_adapter
  | step_parse_command_line_for_kernel
  | step_build_kernel
  | step_write_intermediate_representation
  | step_read_buffers_from_files
  | step_verify_input_arguments
  | step_create_host_side_output_buffers
  | step_create_device_side_buffers
  | step_generate_additional_scalar_arguments
  | step_copy_input_buffers_to_device
  | step_finalize_kernel_arguments
  | step_configure_launch
  | step_perform_single_run nat
  | step_copy_outputs_from_device
  | step_write_buffers_to_files
  | step_free_resources

text \<open>
  Running steps in order: the result is the list of the steps that were started and the
  outcome of the last of them.
\<close>

fun run_steps :: "(main_step \<Rightarrow> unit outcome) \<Rightarrow> main_step list \<Rightarrow> main_step list \<times> unit outcome" where
  "run_steps world [] = ([], Returned ())"
| "run_steps world (s # ss) =
     (case world s of
        Returned _ \<Rightarrow> (case run_steps world ss of (started, r) \<Rightarrow> (s # started, r))
      | Exit c \<Rightarrow> ([s], Exit c)
      | Thrown e \<Rightarrow> ([s], Thrown e))"

definition steps_until_built :: "kernel_inspecific_cmdline_options_t \<Rightarrow> main_step list" where
  "steps_until_built opts =
     [step_ensure_gpu_device_validity, step_initialize_device, step_produce_kernel_adapter,
      step_parse_command_line_for_kernel, step_build_kernel]
     @ (if write_ptx_to_file opts then [step_write_intermediate_representation] else [])"

definition steps_after_built :: "kernel_inspecific_cmdline_options_t \<Rightarrow> main_step list" where
  "steps_after_built opts =
     [step_read_buffers_from_files, step_verify_input_arguments,
      step_create_host_side_output_buffers, step_create_device_side_buffers,
      step_generate_additional_scalar_arguments, step_copy_input_buffers_to_device,
      step_finalize_kernel_arguments, step_configure_launch]
     @ map step_perform_single_run [0..<nat (num_runs opts)]
     @ (if write_output_buffers_to_files opts
        then [step_copy_outputs_from_device, step_write_buffers_to_files] else [])
     @ [step_free_resources]"

text \<open>
  \<open>main\<close>: the steps that were started and how the process ends; \<open>Returned c\<close> is the
  return of \<open>main\<close> with the exit code \<open>c\<close>.
\<close>

definition main ::
  "system_environment \<Rightarrow> device_environment \<Rightarrow> (main_step \<Rightarrow> unit outcome) \<Rightarrow> parse_result
    \<Rightarrow> main_step list \<times> int outcome" where
  "main env denv world pr =
     (case parse_command_line_initially env pr of
        Exit c \<Rightarrow> ([], Exit c)
      | Thrown e \<Rightarrow> ([], Thrown e)
      | Returned opts \<Rightarrow>
          (let world' = world(step_ensure_gpu_device_validity :=
                 ensure_gpu_device_validity denv (gpu_ecosystem opts) (Some (platform_id opts))
                   (gpu_device_id opts) (write_ptx_to_file opts))
           in case run_steps world' (steps_until_built opts) of
                (started, Exit c) \<Rightarrow> (started, Exit c)
              | (started, Thrown e) \<Rightarrow> (started, Thrown e)
              | (started, Returned _) \<Rightarrow>
                  if compile_only opts then (started, Returned EXIT_SUCCESS)
                  else (case run_steps world' (steps_after_built opts) of
                          (later, Exit c) \<Rightarrow> (started @ later, Exit c)
                        | (later, Thrown e) \<Rightarrow> (started @ later, Thrown e)
                        | (later, Returned _) \<Rightarrow> (started @ later, Returned 0))))"

section \<open>Notions used to state the properties\<close>

text \<open>The entry that a call of an adapter appends to the pointer list, and its size.\<close>

fun pointer_of_call :: "marshal_call \<Rightarrow> argument_ptr" where
  "pointer_of_call (call_push_back_buffer dir n) =
     buffer_address (if dir = dir_output \<or> dir = dir_inout then outputs else inputs) n"
| "pointer_of_call (call_push_back_scalar Scalar n) = scalar_address n"

fun size_of_call :: "nat \<Rightarrow> marshal_call \<Rightarrow> nat" where
  "size_of_call sizeof_cl_Buffer (call_push_back_buffer dir n) = sizeof_cl_Buffer"
| "size_of_call sizeof_cl_Buffer (call_push_back_scalar Scalar n) = size_of Scalar"

text \<open>
  What is known of the iteration of a \<open>parameter_name_set\<close>: it visits exactly the
  names that were inserted.
\<close>

definition lists_the_names :: "(string list \<Rightarrow> string list) \<Rightarrow> bool" where
  "lists_the_names names_in_set_order = (\<forall>xs. set (names_in_set_order xs) = set xs)"

text \<open>The names of the inout buffers of a context, as a set.\<close>

definition inout_names :: "execution_context_t \<Rightarrow> string set" where
  "inout_names c =
     set (map name (filter (\<lambda>spd. direction spd = dir_inout \<and> kind spd = buffer)
                      (parameter_details c)))"

text \<open>
  What is assumed of a kernel launch: it leaves the ecosystem, the adapter's parameter
  details and the options as they are, it does not write to the pristine copies of the
  inout buffers (the kernel only receives the working copies), and it does not change the
  size of a buffer.
\<close>

definition launch_keeps_pristine ::
  "(nat \<Rightarrow> execution_context_t \<Rightarrow> execution_context_t outcome) \<Rightarrow> bool" where
  "launch_keeps_pristine launch =
     (\<forall>ri c c'. launch ri c = Returned c' \<longrightarrow>
        ecosystem c' = ecosystem c \<and>
        parameter_details c' = parameter_details c \<and>
        options_zero_output_buffers c' = options_zero_output_buffers c \<and>
        (\<forall>n \<in> inout_names c. device_side_inputs c' n = device_side_inputs c n) \<and>
        (\<forall>n. map_option length (device_side_outputs c' n) =
              map_option length (device_side_outputs c n)))"

text \<open>Every inout buffer has both device copies, of the same size.\<close>

definition copies_of_equal_size :: "execution_context_t \<Rightarrow> bool" where
  "copies_of_equal_size c =
     (\<forall>n \<in> inout_names c.
        \<exists>p w. device_side_inputs c n = Some p \<and> device_side_outputs c n = Some w \<and>
              length w = length p)"

text \<open>The invariant of the loop over the runs, relative to the context before the first run.\<close>

definition pristine_kept :: "execution_context_t \<Rightarrow> execution_context_t \<Rightarrow> bool" where
  "pristine_kept c0 c =
     (ecosystem c = ecosystem c0 \<and>
      parameter_details c = parameter_details c0 \<and>
      options_zero_output_buffers c = options_zero_output_buffers c0 \<and>
      (\<forall>n \<in> inout_names c0.
         device_side_inputs c n = device_side_inputs c0 n \<and>
         map_option length (device_side_outputs c n) = map_option length (device_side_outputs c0 n)))"

text \<open>
  The working copy of a buffer immediately before the launch of run \<open>k\<close>: the runs
  \<open>0\<close> to \<open>k - 1\<close>, then the preparation of run \<open>k\<close>.
\<close>

definition working_copy_before_run ::
  "(string list \<Rightarrow> string list) \<Rightarrow> (nat \<Rightarrow> execution_context_t \<Rightarrow> execution_context_t outcome)
    \<Rightarrow> execution_context_t \<Rightarrow> nat \<Rightarrow> string \<Rightarrow> device_buffer_type option" where
  "working_copy_before_run names_in_set_order launch c0 k n =
     (case and_then (perform_runs names_in_set_order launch [0..<k] c0)
             (prepare_single_run names_in_set_order) of
        Returned c \<Rightarrow> device_side_outputs c n
      | Exit code \<Rightarrow> None
      | Thrown e \<Rightarrow> None)"

text \<open>
  The first parse ends the process with the exit code 0 in three places: at the request
  for the list of kernels (lines 404 to 407); at the request for help on a command line
  that names no kernel (lines 409 to 412); and at the request for help when no source
  file is named and the inferred one does not exist (lines 531 to 538), which is reached
  when the selection of the ecosystem, of the device and of the platform and the check
  of the kernel names have returned. \<open>inferred_source_file\<close> is the path that the
  function infers when no source file is named.
\<close>

definition inferred_source_file ::
  "system_environment \<Rightarrow> parse_result \<Rightarrow> execution_ecosystem_t \<Rightarrow> string" where
  "inferred_source_file env pr eco =
     maybe_prepend_base_dir env (arg_kernel_sources_dir pr)
       ((case arg_kernel_function pr of Some f \<Rightarrow> f | None \<Rightarrow> clipped_key pr)
          @ ''.'' @ kernel_source_file_suffix env eco)"

definition answered_with_exit_success :: "system_environment \<Rightarrow> parse_result \<Rightarrow> bool" where
  "answered_with_exit_success env pr =
     (arg_list_kernels pr \<or>
      (arg_help pr \<and> arg_kernel_source pr = None \<and>
         ((arg_kernel_key pr = None \<and> arg_kernel_function pr = None) \<or>
          (\<exists>use_opencl eco.
              select_ecosystem pr = Returned (use_opencl, eco) \<and>
              returns (select_device_and_platform pr use_opencl) \<and>
              returns (check_kernel_names env pr) \<and>
              \<not> file_exists env (inferred_source_file env pr eco)))))"

section \<open>Example inputs\<close>

text \<open>
  A kernel with one inout buffer \<open>c\<close>; the launch overwrites every byte of every output
  buffer with 9. With a single name, every iteration order of the set of names is the
  same; the examples take the names in their order, each once.
\<close>

definition example_names_in_set_order :: "string list \<Rightarrow> string list" where
  "example_names_in_set_order xs = remdups xs"

definition example_inout_parameter :: single_parameter_details where
  "example_inout_parameter =
     \<lparr>name = ''c'', kind = buffer, direction = dir_inout, required = True, description = []\<rparr>"

definition example_launch :: "nat \<Rightarrow> execution_context_t \<Rightarrow> execution_context_t outcome" where
  "example_launch ri c =
     Returned (c\<lparr>device_side_outputs :=
        (\<lambda>n. map_option (map (\<lambda>b. 9)) (device_side_outputs c n))\<rparr>)"

definition example_context :: "execution_ecosystem_t \<Rightarrow> device_buffer_type \<Rightarrow> device_buffer_type
    \<Rightarrow> execution_context_t" where
  "example_context eco pristine working =
     \<lparr>ecosystem = eco, parameter_details = [example_inout_parameter],
      options_zero_output_buffers = False,
      device_side_inputs = [''c'' \<mapsto> pristine],
      device_side_outputs = [''c'' \<mapsto> working],
      scalar_input_arguments_typed = Map.empty,
      device_log = []\<rparr>"

text \<open>An adapter with an input buffer \<open>A\<close>, an output buffer \<open>B\<close> and an \<open>int\<close> scalar \<open>n\<close>.\<close>

definition example_calls :: "marshal_call list" where
  "example_calls =
     [call_push_back_buffer dir_input ''A'', call_push_back_buffer dir_output ''B'',
      call_push_back_scalar \<lparr>type_name = ''int'', size_of = 4\<rparr> ''n'']"

definition example_marshal_context :: "execution_ecosystem_t \<Rightarrow> execution_context_t" where
  "example_marshal_context eco =
     \<lparr>ecosystem = eco, parameter_details = [],
      options_zero_output_buffers = False,
      device_side_inputs = [''A'' \<mapsto> [1, 2]],
      device_side_outputs = [''B'' \<mapsto> [0, 0]],
      scalar_input_arguments_typed = [''n'' \<mapsto> \<lparr>held_type = ''int'', representation = [2, 0, 0, 0]\<rparr>],
      device_log = []\<rparr>"

text \<open>Block dimensions and overall dimensions forced, as in the scenario of the specification.\<close>

definition example_block_and_overall :: optional_launch_config_components where
  "example_block_and_overall =
     \<lparr>block_dimensions = Some (Dims 256 1 1), grid_dimensions = None,
      overall_grid_dimensions = Some (Dims 1000 1 1), dynamic_shared_memory_size = None\<rparr>"

definition example_block_and_grid :: optional_launch_config_components where
  "example_block_and_grid =
     \<lparr>block_dimensions = Some (Dims 256 1 1), grid_dimensions = Some (Dims 4 1 1),
      overall_grid_dimensions = None, dynamic_shared_memory_size = None\<rparr>"

text \<open>The terms of \<open>--define\<close> strings: the text before the first \<open>=\<close>.\<close>

definition example_get_defined_terms :: "string set \<Rightarrow> string set" where
  "example_get_defined_terms ds = takeWhile (\<lambda>c. c \<noteq> CHR ''='') ` ds"

text \<open>A machine with two CUDA devices and one OpenCL platform that has one GPU device.\<close>

definition example_devices :: device_environment where
  "example_devices =
     \<lparr>cuda_device_count = 2,
      opencl_platforms = [\<lparr>platform_uses_ptx = False, platform_gpu_devices = 1\<rparr>]\<rparr>"

text \<open>
  A working directory that holds \<open>vectorAdd.cu\<close> and \<open>foo.cu\<close>, a registry with the
  single key \<open>vectorAdd\<close>, and the command line \<open>--kernel-key vectorAdd\<close>.
\<close>

definition example_environment :: system_environment where
  "example_environment =
     \<lparr>file_exists = (\<lambda>p. p = ''.'' \<or> p = ''./vectorAdd.cu'' \<or> p = ''./foo.cu''),
      is_directory = (\<lambda>p. p = ''.''),
      can_produce_subclass = (\<lambda>k. k = ''vectorAdd''),
      is_valid_identifier = (\<lambda>s. s = ''vectorAdd''),
      kernel_source_file_suffix = (\<lambda>eco. case eco of cuda \<Rightarrow> ''cu'' | opencl \<Rightarrow> ''cl''),
      maybe_prepend_base_dir = (\<lambda>dir p. dir @ ''/'' @ p),
      path_filename = (\<lambda>p. p),
      to_lowercase = (\<lambda>s. s)\<rparr>"

definition example_command_line :: parse_result where
  "example_command_line =
     \<lparr>arg_help = False, arg_list_kernels = False, arg_kernel_source = None,
      arg_kernel_function = None, arg_kernel_key = Some ''vectorAdd'',
      arg_cuda = None, arg_opencl = None, arg_platform_id = None, arg_device = 0,
      arg_num_runs = 1, arg_kernel_sources_dir = ''.'', arg_input_buffer_dir = ''.'',
      arg_output_buffer_dir = ''.'', arg_write_ptx = None, arg_generate_line_info = None,
      arg_ptx_output_file = None, arg_write_output = True, arg_compile_only = False,
      arg_language_standard = None, arg_debug_mode = False, arg_zero_output_buffers = False,
      arg_time_execution = False, arg_block_dimensions = None, arg_grid_dimensions = None,
      arg_overall_grid_dimensions = None, arg_dynamic_shared_memory_size = None,
      arg_define = None, arg_include_path = None, arg_include = None\<rparr>"

definition example_world :: "main_step \<Rightarrow> unit outcome" where
  "example_world s = Returned ()"

section \<open>General lemmas on outcomes\<close>

lemma and_then_Returned:
  "and_then m f = Returned y \<Longrightarrow> \<exists>x. m = Returned x \<and> f x = Returned y"
  by (cases m) simp_all

lemma and_then_Exit:
  "and_then m f = Exit c \<Longrightarrow> m = Exit c \<or> (\<exists>x. m = Returned x \<and> f x = Exit c)"
  by (cases m) simp_all

section \<open>Marshalling\<close>

lemma run_marshal_call_result:
  assumes "run_marshal_call sz context a c = Returned a'"
  shows "pointers a' = pointers a @ [pointer_of_call c] \<and>
         sizes a' = sizes a @ (if ecosystem context = opencl then [size_of_call sz c] else [])"
proof (cases c)
  case (call_push_back_buffer dir n)
  with assms show ?thesis
    by (cases dir; cases "ecosystem context")
       (auto simp: push_back_buffer_def buffer_map_def split: option.splits)
next
  case (call_push_back_scalar Scalar n)
  with assms show ?thesis
    by (cases "ecosystem context")
       (auto simp: push_back_scalar_def Let_def split: option.splits if_splits)
qed

lemma marshal_kernel_arguments_inner_result:
  "marshal_kernel_arguments_inner sz calls a context = Returned m \<Longrightarrow>
     pointers m = pointers a @ map pointer_of_call calls \<and>
     sizes m = sizes a @ (if ecosystem context = opencl then map (size_of_call sz) calls else [])"
proof (induction calls arbitrary: a)
  case Nil
  then show ?case by simp
next
  case (Cons c calls)
  from Cons.prems obtain a1 where 1: "run_marshal_call sz context a c = Returned a1"
    and 2: "marshal_kernel_arguments_inner sz calls a1 context = Returned m"
    by (auto dest: and_then_Returned)
  from run_marshal_call_result [OF 1] Cons.IH [OF 2] show ?case by simp
qed

lemma pointer_of_call_not_null: "pointer_of_call c \<noteq> nullptr"
  by (cases c) simp_all

text \<open>
  C4. When the marshalling returns, the pointer list is the entries of the adapter's
  calls, in their order, followed by one \<open>nullptr\<close> under CUDA and by nothing under
  OpenCL; none of the entries before it is \<open>nullptr\<close>, so the list ends with a null
  entry iff the ecosystem is CUDA. Under OpenCL the list of sizes has one size for each
  entry; under CUDA it stays empty.
\<close>

theorem marshalled_arguments_sentinel:
  assumes "marshal_kernel_arguments sz calls context = Returned m"
  shows "pointers m = map pointer_of_call calls @ (if ecosystem context = cuda then [nullptr] else []) \<and>
         nullptr \<notin> set (map pointer_of_call calls) \<and>
         ((pointers m \<noteq> [] \<and> last (pointers m) = nullptr) \<longleftrightarrow> ecosystem context = cuda) \<and>
         sizes m = (if ecosystem context = opencl then map (size_of_call sz) calls else []) \<and>
         (ecosystem context = opencl \<longrightarrow> length (sizes m) = length (pointers m))"
proof -
  from assms obtain a where i: "marshal_kernel_arguments_inner sz calls \<lparr>pointers = [], sizes = []\<rparr> context = Returned a"
    and m: "m = (if ecosystem context = cuda then a\<lparr>pointers := pointers a @ [nullptr]\<rparr> else a)"
    unfolding marshal_kernel_arguments_def
    by (auto dest!: and_then_Returned split: if_splits)
  from marshal_kernel_arguments_inner_result [OF i]
  have a: "pointers a = map pointer_of_call calls"
    "sizes a = (if ecosystem context = opencl then map (size_of_call sz) calls else [])"
    by simp_all
  have nn: "nullptr \<notin> set (map pointer_of_call calls)"
    using pointer_of_call_not_null by (auto simp: image_iff) metis
  show ?thesis
  proof (cases "ecosystem context")
    case cuda
    then show ?thesis using a m nn by simp
  next
    case opencl
    have "calls \<noteq> [] \<Longrightarrow> last (map pointer_of_call calls) \<noteq> nullptr"
      using nn last_in_set [of "map pointer_of_call calls"] by auto
    then show ?thesis using opencl a m nn by auto
  qed
qed

theorem marshalled_arguments_sentinel_witness:
  "marshal_kernel_arguments 8 example_calls (example_marshal_context cuda) =
     Returned \<lparr>pointers = [buffer_address inputs ''A'', buffer_address outputs ''B'',
                           scalar_address ''n'', nullptr], sizes = []\<rparr>
   \<and> marshal_kernel_arguments 8 example_calls (example_marshal_context opencl) =
     Returned \<lparr>pointers = [buffer_address inputs ''A'', buffer_address outputs ''B'',
                           scalar_address ''n''], sizes = [8, 8, 4]\<rparr>"
proof -
  have "returns (marshal_kernel_arguments 8 example_calls (example_marshal_context cuda))"
    by (simp add: marshal_kernel_arguments_def example_calls_def example_marshal_context_def
          push_back_buffer_def push_back_scalar_def buffer_map_def)
  then obtain m1 where m1: "marshal_kernel_arguments 8 example_calls (example_marshal_context cuda) = Returned m1"
    by (cases "marshal_kernel_arguments 8 example_calls (example_marshal_context cuda)") simp_all
  have "returns (marshal_kernel_arguments 8 example_calls (example_marshal_context opencl))"
    by (simp add: marshal_kernel_arguments_def example_calls_def example_marshal_context_def
          push_back_buffer_def push_back_scalar_def buffer_map_def)
  then obtain m2 where m2: "marshal_kernel_arguments 8 example_calls (example_marshal_context opencl) = Returned m2"
    by (cases "marshal_kernel_arguments 8 example_calls (example_marshal_context opencl)") simp_all
  from marshalled_arguments_sentinel [OF m1]
  have "m1 = \<lparr>pointers = [buffer_address inputs ''A'', buffer_address outputs ''B'',
                           scalar_address ''n'', nullptr], sizes = []\<rparr>"
    by (simp add: example_calls_def example_marshal_context_def)
  moreover from marshalled_arguments_sentinel [OF m2]
  have "m2 = \<lparr>pointers = [buffer_address inputs ''A'', buffer_address outputs ''B'',
                           scalar_address ''n''], sizes = [8, 8, 4]\<rparr>"
    by (simp add: example_calls_def example_marshal_context_def)
  ultimately show ?thesis using m1 m2 by simp
qed

text \<open>
  C5. \<open>push_back_buffer\<close> takes the buffer from the outputs when the direction is out or
  inout and from the inputs when it is in, by the name of the parameter: when the name is
  in that collection the address of its entry is appended, and when it is not the lookup
  throws.
\<close>

theorem push_back_buffer_collection:
  "(dir = dir_output \<or> dir = dir_inout \<longrightarrow>
      (case device_side_outputs ctx n of
         None \<Rightarrow> push_back_buffer sz a ctx dir n = Thrown ''std::out_of_range''
       | Some b \<Rightarrow> (\<exists>a'. push_back_buffer sz a ctx dir n = Returned a' \<and>
                       pointers a' = pointers a @ [buffer_address outputs n]))) \<and>
   (dir = dir_input \<longrightarrow>
      (case device_side_inputs ctx n of
         None \<Rightarrow> push_back_buffer sz a ctx dir n = Thrown ''std::out_of_range''
       | Some b \<Rightarrow> (\<exists>a'. push_back_buffer sz a ctx dir n = Returned a' \<and>
                       pointers a' = pointers a @ [buffer_address inputs n])))"
  by (cases dir) (auto simp: push_back_buffer_def buffer_map_def split: option.splits)

theorem push_back_buffer_collection_witness:
  "(\<exists>a'. push_back_buffer 8 \<lparr>pointers = [], sizes = []\<rparr> (example_marshal_context cuda) dir_inout ''B''
          = Returned a' \<and> pointers a' = [buffer_address outputs ''B'']) \<and>
   (\<exists>a'. push_back_buffer 8 \<lparr>pointers = [], sizes = []\<rparr> (example_marshal_context cuda) dir_input ''A''
          = Returned a' \<and> pointers a' = [buffer_address inputs ''A'']) \<and>
   push_back_buffer 8 \<lparr>pointers = [], sizes = []\<rparr> (example_marshal_context cuda) dir_output ''A''
     = Thrown ''std::out_of_range''"
  using push_back_buffer_collection [where dir = dir_inout and ctx = "example_marshal_context cuda"
      and n = "''B''" and sz = 8 and a = "\<lparr>pointers = [], sizes = []\<rparr>"]
    push_back_buffer_collection [where dir = dir_input and ctx = "example_marshal_context cuda"
      and n = "''A''" and sz = 8 and a = "\<lparr>pointers = [], sizes = []\<rparr>"]
    push_back_buffer_collection [where dir = dir_output and ctx = "example_marshal_context cuda"
      and n = "''A''" and sz = 8 and a = "\<lparr>pointers = [], sizes = []\<rparr>"]
  by (simp add: example_marshal_context_def)

section \<open>Required preprocessor definitions\<close>

text \<open>
  C6. \<open>ensure_necessary_terms_were_defined\<close> ends the process with \<open>EXIT_FAILURE\<close> iff
  some required term is neither among the terms of the define options nor among the keys
  of the definitions given by dedicated options; the terms it reports are exactly these.
  When the union covers every required term the function returns.
\<close>

theorem required_terms_checked_against_union:
  "(ensure_necessary_terms_were_defined g req defs vals = Exit EXIT_FAILURE
      \<longleftrightarrow> (\<exists>t \<in> req. t \<notin> g defs \<union> dom vals)) \<and>
   (ensure_necessary_terms_were_defined g req defs vals = Returned ()
      \<longleftrightarrow> req \<subseteq> g defs \<union> dom vals) \<and>
   required_but_undefined g req defs vals = {t \<in> req. t \<notin> g defs \<union> dom vals}"
  by (auto simp: ensure_necessary_terms_were_defined_def required_but_undefined_def)

theorem required_terms_checked_against_union_witness:
  "ensure_necessary_terms_were_defined example_get_defined_terms {''A'', ''B''}
       {''A=1''} [''B'' \<mapsto> ''2''] = Returned ()
   \<and> ensure_necessary_terms_were_defined example_get_defined_terms {''A'', ''B''}
       {''A=1''} Map.empty = Exit EXIT_FAILURE
   \<and> required_but_undefined example_get_defined_terms {''A'', ''B''} {''A=1''} Map.empty = {''B''}"
proof -
  have t: "example_get_defined_terms {''A=1''} = {''A''}"
    by (simp add: example_get_defined_terms_def)
  show ?thesis
    using required_terms_checked_against_union [where g = example_get_defined_terms
        and req = "{''A'', ''B''}" and defs = "{''A=1''}" and vals = "[''B'' \<mapsto> ''2'']"]
      required_terms_checked_against_union [where g = example_get_defined_terms
        and req = "{''A'', ''B''}" and defs = "{''A=1''}" and vals = Map.empty]
    by (auto simp: t)
qed

section \<open>Validity of the device index\<close>

text \<open>
  C9. Under OpenCL the index is not compared with the number of devices of the selected
  platform: on a machine with two CUDA devices and one OpenCL GPU device, the index 1 is
  accepted for OpenCL, although the selected ecosystem has a single device.
\<close>

theorem device_index_compared_with_cuda_count:
  "selected_device_count example_devices opencl (Some 0) = 1 \<and>
   ensure_gpu_device_validity example_devices opencl (Some 0) 1 False = Returned ()"
  by (simp add: selected_device_count_def ensure_gpu_device_validity_def example_devices_def)


section \<open>The working copies of the inout buffers\<close>

lemma copy_same_size:
  "length w = length p \<Longrightarrow> copy_buffer_on_device eco w p = Returned p"
  by (simp add: copy_buffer_on_device_def)

lemma inout_buffer_names:
  "lists_the_names f \<Longrightarrow> set (buffer_names f (parameter_details c) dir_inout) = inout_names c"
  by (simp add: lists_the_names_def buffer_names_def inout_names_def)

lemma zero_each_frame:
  "zero_each_output_buffer ns c = Returned c' \<Longrightarrow>
     ecosystem c' = ecosystem c \<and> parameter_details c' = parameter_details c \<and>
     options_zero_output_buffers c' = options_zero_output_buffers c \<and>
     device_side_inputs c' = device_side_inputs c \<and>
     (\<forall>n. map_option length (device_side_outputs c' n) = map_option length (device_side_outputs c n))"
proof (induction ns arbitrary: c)
  case Nil
  then show ?case by simp
next
  case (Cons a ns)
  then show ?case
    by (fastforce split: option.splits)
qed

lemma reset_each_result:
  assumes "\<forall>n \<in> set ns. \<exists>p w. device_side_inputs c n = Some p \<and> device_side_outputs c n = Some w \<and> length w = length p"
  shows "\<exists>c'. reset_each_working_copy ns c = Returned c' \<and>
     ecosystem c' = ecosystem c \<and> parameter_details c' = parameter_details c \<and>
     options_zero_output_buffers c' = options_zero_output_buffers c \<and>
     device_side_inputs c' = device_side_inputs c \<and>
     (\<forall>n \<in> set ns. device_side_outputs c' n = device_side_inputs c n) \<and>
     (\<forall>n. n \<notin> set ns \<longrightarrow> device_side_outputs c' n = device_side_outputs c n)"
  using assms
proof (induction ns arbitrary: c)
  case Nil
  then show ?case by simp
next
  case (Cons a ns)
  from Cons.prems obtain p w where a: "device_side_inputs c a = Some p"
    "device_side_outputs c a = Some w" "length w = length p"
    by auto
  let ?c1 = "c\<lparr>device_side_outputs := (device_side_outputs c)(a \<mapsto> p),
                device_log := device_log c @ [copy_operation (ecosystem c) a]\<rparr>"
  have step: "reset_each_working_copy (a # ns) c = reset_each_working_copy ns ?c1"
    using a by (simp add: copy_same_size)
  have pre: "\<forall>n \<in> set ns. \<exists>p w. device_side_inputs ?c1 n = Some p \<and>
               device_side_outputs ?c1 n = Some w \<and> length w = length p"
    using Cons.prems a by auto
  from Cons.IH [OF pre] obtain c' where c': "reset_each_working_copy ns ?c1 = Returned c'"
     "ecosystem c' = ecosystem ?c1" "parameter_details c' = parameter_details ?c1"
     "options_zero_output_buffers c' = options_zero_output_buffers ?c1"
     "device_side_inputs c' = device_side_inputs ?c1"
     "\<forall>n \<in> set ns. device_side_outputs c' n = device_side_inputs ?c1 n"
     "\<forall>n. n \<notin> set ns \<longrightarrow> device_side_outputs c' n = device_side_outputs ?c1 n"
    by blast
  have "device_side_outputs c' a = device_side_inputs c a"
  proof (cases "a \<in> set ns")
    case True
    then show ?thesis using c'(6) by simp
  next
    case False
    then show ?thesis using c'(7) a by simp
  qed
  then show ?case using step c' by auto
qed

lemma reset_result:
  assumes O: "lists_the_names f" and E: "copies_of_equal_size c"
  shows "\<exists>c'. reset_working_copy_of_inout_buffers f c = Returned c' \<and>
     ecosystem c' = ecosystem c \<and> parameter_details c' = parameter_details c \<and>
     options_zero_output_buffers c' = options_zero_output_buffers c \<and>
     device_side_inputs c' = device_side_inputs c \<and>
     (\<forall>n \<in> inout_names c. device_side_outputs c' n = device_side_inputs c n)"
proof (cases "buffer_names f (parameter_details c) dir_inout = []")
  case True
  then have "inout_names c = {}" using inout_buffer_names [OF O, of c] by simp
  then show ?thesis using True by (simp add: reset_working_copy_of_inout_buffers_def)
next
  case False
  from E have "\<forall>n \<in> set (buffer_names f (parameter_details c) dir_inout).
      \<exists>p w. device_side_inputs c n = Some p \<and> device_side_outputs c n = Some w \<and> length w = length p"
    by (simp add: copies_of_equal_size_def inout_buffer_names [OF O])
  from reset_each_result [OF this] obtain c1 where c1:
     "reset_each_working_copy (buffer_names f (parameter_details c) dir_inout) c = Returned c1"
     "ecosystem c1 = ecosystem c" "parameter_details c1 = parameter_details c"
     "options_zero_output_buffers c1 = options_zero_output_buffers c"
     "device_side_inputs c1 = device_side_inputs c"
     "\<forall>n \<in> set (buffer_names f (parameter_details c) dir_inout). device_side_outputs c1 n = device_side_inputs c n"
    by blast
  then show ?thesis using False
    by (simp add: reset_working_copy_of_inout_buffers_def inout_buffer_names [OF O])
qed

lemma zero_frame:
  "zero_output_buffers f c = Returned c' \<Longrightarrow>
     ecosystem c' = ecosystem c \<and> parameter_details c' = parameter_details c \<and>
     options_zero_output_buffers c' = options_zero_output_buffers c \<and>
     device_side_inputs c' = device_side_inputs c \<and>
     (\<forall>n. map_option length (device_side_outputs c' n) = map_option length (device_side_outputs c n))"
  using zero_each_frame [of "buffer_names f (parameter_details c) dir_output" c c']
  by (auto simp: zero_output_buffers_def Let_def split: if_splits)

lemma maybe_zero_frame:
  "(if options_zero_output_buffers c then zero_output_buffers f c else Returned c) = Returned c' \<Longrightarrow>
     ecosystem c' = ecosystem c \<and> parameter_details c' = parameter_details c \<and>
     options_zero_output_buffers c' = options_zero_output_buffers c \<and>
     device_side_inputs c' = device_side_inputs c \<and>
     (\<forall>n. map_option length (device_side_outputs c' n) = map_option length (device_side_outputs c n))"
  using zero_frame [of f c c'] by (auto split: if_splits)

lemma inout_names_kept: "pristine_kept c0 c \<Longrightarrow> inout_names c = inout_names c0"
  by (simp add: pristine_kept_def inout_names_def)

lemma equal_size_from_kept:
  assumes "copies_of_equal_size c0" "pristine_kept c0 c"
  shows "copies_of_equal_size c"
  unfolding copies_of_equal_size_def
proof
  fix n assume "n \<in> inout_names c"
  with assms(2) have n: "n \<in> inout_names c0"
    by (simp add: inout_names_kept)
  with assms(1) obtain p w where pw: "device_side_inputs c0 n = Some p"
     "device_side_outputs c0 n = Some w" "length w = length p"
    by (auto simp: copies_of_equal_size_def)
  from assms(2) n have k: "device_side_inputs c n = device_side_inputs c0 n"
    "map_option length (device_side_outputs c n) = map_option length (device_side_outputs c0 n)"
    by (simp_all add: pristine_kept_def)
  from k(2) pw(2) obtain w' where "device_side_outputs c n = Some w'" "length w' = length w"
    by (cases "device_side_outputs c n") auto
  with k(1) pw show "\<exists>p w. device_side_inputs c n = Some p \<and> device_side_outputs c n = Some w \<and> length w = length p"
    by simp
qed

lemma single_run_kept:
  assumes O: "lists_the_names f" and L: "launch_keeps_pristine launch"
    and E: "copies_of_equal_size c0"
    and K: "pristine_kept c0 c" and R: "perform_single_run f launch c ri = Returned c'"
  shows "pristine_kept c0 c'"
proof -
  from R obtain c2 where P: "prepare_single_run f c = Returned c2"
    and La: "launch ri (c2\<lparr>device_log := device_log c2 @ [kernel_launch (ecosystem c2) ri]\<rparr>) = Returned c'"
    unfolding perform_single_run_def by (blast dest: and_then_Returned)
  from P obtain cz where Z: "(if options_zero_output_buffers c then zero_output_buffers f c else Returned c) = Returned cz"
    and Re: "reset_working_copy_of_inout_buffers f cz = Returned c2"
    unfolding prepare_single_run_def by (blast dest: and_then_Returned)
  note zf = maybe_zero_frame [OF Z]
  have Kz: "pristine_kept c0 cz" using K zf by (simp add: pristine_kept_def)
  have Ez: "copies_of_equal_size cz" by (rule equal_size_from_kept [OF E Kz])
  from reset_result [OF O Ez] Re have r:
     "ecosystem c2 = ecosystem cz" "parameter_details c2 = parameter_details cz"
     "options_zero_output_buffers c2 = options_zero_output_buffers cz"
     "device_side_inputs c2 = device_side_inputs cz"
     "\<forall>n \<in> inout_names cz. device_side_outputs c2 n = device_side_inputs cz n"
    by auto
  have K2: "pristine_kept c0 c2"
    unfolding pristine_kept_def
  proof (intro conjI ballI)
    fix n assume n: "n \<in> inout_names c0"
    show "device_side_inputs c2 n = device_side_inputs c0 n"
      using r Kz n by (simp add: pristine_kept_def)
    from E n obtain p w where pw: "device_side_inputs c0 n = Some p"
     "device_side_outputs c0 n = Some w" "length w = length p"
      by (auto simp: copies_of_equal_size_def)
    have "device_side_outputs c2 n = Some p"
      using r Kz n pw inout_names_kept [OF Kz] by (simp add: pristine_kept_def)
    then show "map_option length (device_side_outputs c2 n) = map_option length (device_side_outputs c0 n)"
      using pw by simp
  qed (use r Kz in \<open>simp_all add: pristine_kept_def\<close>)
  let ?c3 = "c2\<lparr>device_log := device_log c2 @ [kernel_launch (ecosystem c2) ri]\<rparr>"
  have i3: "inout_names ?c3 = inout_names c0"
    using inout_names_kept [OF K2] by (simp add: inout_names_def)
  from L La have l: "ecosystem c' = ecosystem ?c3" "parameter_details c' = parameter_details ?c3"
    "options_zero_output_buffers c' = options_zero_output_buffers ?c3"
    "\<forall>n \<in> inout_names ?c3. device_side_inputs c' n = device_side_inputs ?c3 n"
    "\<forall>n. map_option length (device_side_outputs c' n) = map_option length (device_side_outputs ?c3 n)"
    unfolding launch_keeps_pristine_def by blast+
  show ?thesis using K2 l i3 by (simp add: pristine_kept_def)
qed

lemma runs_kept:
  assumes O: "lists_the_names f" and L: "launch_keeps_pristine launch"
    and E: "copies_of_equal_size c0"
  shows "pristine_kept c0 c \<Longrightarrow> perform_runs f launch ris c = Returned c' \<Longrightarrow> pristine_kept c0 c'"
proof (induction ris arbitrary: c)
  case Nil
  then show ?case by simp
next
  case (Cons ri ris)
  from Cons.prems(2) obtain c1 where s: "perform_single_run f launch c ri = Returned c1"
    and r: "perform_runs f launch ris c1 = Returned c'"
    by (auto dest: and_then_Returned)
  from single_run_kept [OF O L E Cons.prems(1) s] have "pristine_kept c0 c1" .
  from Cons.IH [OF this r] show ?case .
qed

text \<open>
  The contents. Let every inout buffer have a pristine and a working device copy of the
  same size, and let the kernel launch leave the pristine copies and the sizes of the
  buffers unchanged. If the runs \<open>0\<close> to \<open>k - 1\<close> and the optional zeroing of run \<open>k\<close>
  have returned, then the reset of run \<open>k\<close> returns, and in the context handed to the
  launch of run \<open>k\<close> the working copy of every inout buffer has the contents of its
  pristine copy as it was before the first run, in whatever order the names are visited.
\<close>

lemma working_copy_reset_when_sizes_agree:
  assumes O: "lists_the_names f" and L: "launch_keeps_pristine launch"
    and E: "copies_of_equal_size c0"
    and R: "perform_runs f launch [0..<k] c0 = Returned ck"
    and Z: "(if options_zero_output_buffers ck then zero_output_buffers f ck else Returned ck) = Returned cz"
  shows "\<exists>c. reset_working_copy_of_inout_buffers f cz = Returned c \<and>
           prepare_single_run f ck = Returned c \<and>
           (\<forall>n \<in> inout_names c0. device_side_outputs c n = device_side_inputs c0 n)"
proof -
  have K0: "pristine_kept c0 c0" by (simp add: pristine_kept_def)
  have Kk: "pristine_kept c0 ck" by (rule runs_kept [OF O L E K0 R])
  note zf = maybe_zero_frame [OF Z]
  have Kz: "pristine_kept c0 cz" using Kk zf by (simp add: pristine_kept_def)
  have Ez: "copies_of_equal_size cz" by (rule equal_size_from_kept [OF E Kz])
  from reset_result [OF O Ez] obtain c where c:
    "reset_working_copy_of_inout_buffers f cz = Returned c"
    "\<forall>n \<in> inout_names cz. device_side_outputs c n = device_side_inputs cz n"
    by blast
  have P: "prepare_single_run f ck = Returned c"
    using Z c(1) by (simp add: prepare_single_run_def)
  have "\<forall>n \<in> inout_names c0. device_side_outputs c n = device_side_inputs c0 n"
    using c(2) Kz inout_names_kept [OF Kz] by (simp add: pristine_kept_def)
  then show ?thesis using c(1) P by auto
qed

lemmas example_run_defs =
  example_context_def example_inout_parameter_def example_launch_def buffer_names_def
  example_names_in_set_order_def
  perform_single_run_def prepare_single_run_def reset_working_copy_of_inout_buffers_def
  copy_buffer_on_device_def copy_operation_def

lemma example_launch_keeps_pristine: "launch_keeps_pristine example_launch"
  by (auto simp: launch_keeps_pristine_def example_launch_def option.map_comp comp_def)

text \<open>An instance: two bytes in each copy, under CUDA, before the launch of run 1.\<close>

lemma working_copy_reset_example:
  "working_copy_before_run example_names_in_set_order example_launch
     (example_context cuda [7, 8] [0, 0]) 1 ''c'' = Some [7, 8]"
proof -
  let ?c0 = "example_context cuda [7, 8] [0, 0]"
  have O: "lists_the_names example_names_in_set_order"
    by (simp add: lists_the_names_def example_names_in_set_order_def)
  have E: "copies_of_equal_size ?c0"
    by (simp add: copies_of_equal_size_def inout_names_def example_context_def
          example_inout_parameter_def)
  have "returns (perform_runs example_names_in_set_order example_launch [0..<1] ?c0)"
    by (simp add: example_run_defs)
  then obtain ck where R: "perform_runs example_names_in_set_order example_launch [0..<1] ?c0 = Returned ck"
    by (cases "perform_runs example_names_in_set_order example_launch [0..<1] ?c0") simp_all
  have "pristine_kept ?c0 ck"
    by (rule runs_kept [OF O example_launch_keeps_pristine E _ R]) (simp add: pristine_kept_def)
  then have Z: "(if options_zero_output_buffers ck
                 then zero_output_buffers example_names_in_set_order ck else Returned ck) = Returned ck"
    by (simp add: pristine_kept_def example_context_def)
  from working_copy_reset_when_sizes_agree [OF O example_launch_keeps_pristine E R Z]
  obtain c where c: "prepare_single_run example_names_in_set_order ck = Returned c"
    "\<forall>n \<in> inout_names ?c0. device_side_outputs c n = device_side_inputs ?c0 n"
    by blast
  from c(2) have "device_side_outputs c ''c'' = Some [7, 8]"
    by (simp add: inout_names_def example_context_def example_inout_parameter_def)
  then show ?thesis
    using R c(1) by (simp add: working_copy_before_run_def)
qed

text \<open>
  The sizes matter. Under OpenCL, with a pristine copy of one byte and a working copy of
  two bytes, the copy on the device overwrites one byte: before the launch of run 1 the
  second byte of the working copy is the 9 that the kernel wrote in run 0.
\<close>

lemma working_copy_keeps_mutation_when_sizes_differ:
  "working_copy_before_run example_names_in_set_order example_launch
     (example_context opencl [7] [0, 0]) 1 ''c'' = Some [7, 9]
   \<and> device_side_inputs (example_context opencl [7] [0, 0]) ''c'' = Some [7]"
  by (simp add: working_copy_before_run_def example_run_defs)

text \<open>
  C1. Under OpenCL, with one inout buffer whose two copies have the same size, run 0
  resets the working copy and launches the kernel, but the operations it issues before
  the launch are a copy that is put on the OpenCL queue and a synchronisation of the CUDA
  device: none of them synchronises the OpenCL device, where the claim has a device
  synchronisation complete before the launch.
\<close>

theorem reset_under_opencl_synchronizes_cuda_device:
  "map_outcome device_log
     (perform_single_run example_names_in_set_order example_launch
        (example_context opencl [7, 8] [0, 0]) 0)
     = Returned [opencl_enqueueCopyBuffer ''c'', cuda_device_synchronize, kernel_launch opencl 0]
   \<and> filter (synchronizes opencl)
        [opencl_enqueueCopyBuffer ''c'', cuda_device_synchronize, kernel_launch opencl 0] = []
   \<and> map_outcome (\<lambda>c. device_side_outputs c ''c'')
        (prepare_single_run example_names_in_set_order (example_context opencl [7, 8] [0, 0]))
     = Returned (Some [7, 8])"
  by (simp add: example_run_defs)

section \<open>Launch configuration\<close>

lemma ceil_div_bounds:
  assumes "0 < b"
  shows "a \<le> ceil_div a b * b" and "ceil_div a b * b < a + b"
proof -
  let ?q = "(a + b - 1) div b"
  have 1: "?q * b \<le> a + b - 1" by simp
  have 2: "a + b - 1 < ?q * b + b"
    using assms dividend_less_div_times [of b "a + b - 1"] by (simp add: ac_simps)
  show "a \<le> ceil_div a b * b" using 2 assms unfolding ceil_div_def by linarith
  show "ceil_div a b * b < a + b" using 1 assms unfolding ceil_div_def by linarith
qed

lemma all_axes: "(\<forall>i<3. P (i::nat)) \<longleftrightarrow> P 0 \<and> P 1 \<and> P 2"
proof
  assume "\<forall>i<3. P i" then show "P 0 \<and> P 1 \<and> P 2" by simp
next
  assume a: "P 0 \<and> P 1 \<and> P 2"
  show "\<forall>i<3. P i"
  proof (intro allI impI)
    fix i :: nat assume "i < 3"
    then have "i = 0 \<or> i = 1 \<or> i = 2" by arith
    with a show "P i" by auto
  qed
qed

lemma example_ceil_div: "ceil_div 1000 256 = 4" "ceil_div (Suc 0) (Suc 0) = Suc 0"
  by (simp_all add: ceil_div_def)

lemma example_configure_launch:
  "configure_launch example_block_and_overall =
     Returned \<lparr>bd = Dims 256 1 1, gd = Dims 4 1 1, ogd = Dims 1000 1 1, shared_memory = 0,
               covers_full_blocks = False\<rparr>"
  by (simp add: configure_launch_def deduce_missing_def example_block_and_overall_def
        full_blocks_def example_ceil_div)

lemma example_configure_launch_grid:
  "configure_launch example_block_and_grid =
     Returned \<lparr>bd = Dims 256 1 1, gd = Dims 4 1 1, ogd = Dims 1024 1 1, shared_memory = 0,
               covers_full_blocks = True\<rparr>"
  by (simp add: configure_launch_def deduce_missing_def example_block_and_grid_def
        full_blocks_def)

text \<open>
  C2, amended. In a resolved geometry the grid covers the overall dimensions:
  \<open>overall[i] \<le> grid[i] * block[i]\<close> on every axis, and \<open>full_blocks\<close> holds iff
  this is an equality on every axis. It is an equality when the grid dimensions were
  given. When the overall dimensions were given, the block dimensions are positive and the
  grid is the least that covers: \<open>grid[i] * block[i] < overall[i] + block[i]\<close>.
\<close>

theorem resolved_geometry_covers_overall:
  assumes "configure_launch lc = Returned r"
  shows "(\<forall>i<3. axis (ogd r) i \<le> axis (gd r) i * axis (bd r) i) \<and>
         (covers_full_blocks r \<longleftrightarrow> (\<forall>i<3. axis (ogd r) i = axis (gd r) i * axis (bd r) i)) \<and>
         (grid_dimensions lc \<noteq> None \<longrightarrow>
            (\<forall>i<3. axis (ogd r) i = axis (gd r) i * axis (bd r) i)) \<and>
         (overall_grid_dimensions lc \<noteq> None \<longrightarrow>
            (\<forall>i<3. 0 < axis (bd r) i \<and> axis (gd r) i * axis (bd r) i < axis (ogd r) i + axis (bd r) i))"
proof -
  from assms obtain c where d: "deduce_missing lc = Returned c"
    and v: "grid_dimensions c = Some (gd r)" "block_dimensions c = Some (bd r)"
       "overall_grid_dimensions c = Some (ogd r)"
       "covers_full_blocks r = full_blocks (bd r) (gd r) (ogd r)"
    unfolding configure_launch_def
    by (auto dest!: and_then_Returned split: option.splits)
  have fb: "covers_full_blocks r \<longleftrightarrow> (\<forall>i<3. axis (ogd r) i = axis (gd r) i * axis (bd r) i)"
    unfolding v(4) full_blocks_def all_axes by auto
  consider (grid) b g where "block_dimensions lc = Some b" "grid_dimensions lc = Some g"
        "overall_grid_dimensions lc = None"
        "bd r = b" "gd r = g" "ogd r = Dims (axis g 0 * axis b 0) (axis g 1 * axis b 1) (axis g 2 * axis b 2)"
    | (overall) b ov where "block_dimensions lc = Some b" "grid_dimensions lc = None"
        "overall_grid_dimensions lc = Some ov" "0 < axis b 0" "0 < axis b 1" "0 < axis b 2"
        "bd r = b" "ogd r = ov"
        "gd r = Dims (ceil_div (axis ov 0) (axis b 0)) (ceil_div (axis ov 1) (axis b 1)) (ceil_div (axis ov 2) (axis b 2))"
    using d v unfolding deduce_missing_def
    by (auto simp: die_def split: if_splits option.splits)
  then show ?thesis
  proof cases
    case grid
    then show ?thesis using fb unfolding all_axes by simp
  next
    case overall
    note cd = ceil_div_bounds [OF overall(4), of "axis ov 0"] ceil_div_bounds [OF overall(5), of "axis ov 1"]
      ceil_div_bounds [OF overall(6), of "axis ov 2"]
    show ?thesis using fb overall cd unfolding all_axes by simp
  qed
qed

theorem resolved_geometry_covers_overall_witness:
  "configure_launch example_block_and_overall =
     Returned \<lparr>bd = Dims 256 1 1, gd = Dims 4 1 1, ogd = Dims 1000 1 1, shared_memory = 0,
               covers_full_blocks = False\<rparr>
   \<and> axis (Dims 1000 1 1) 0 \<le> axis (Dims 4 1 1) 0 * axis (Dims 256 1 1) 0
   \<and> axis (Dims 4 1 1) 0 * axis (Dims 256 1 1) 0 < axis (Dims 1000 1 1) 0 + axis (Dims 256 1 1) 0
   \<and> axis (Dims 1000 1 1) 1 = axis (Dims 4 1 1) 1 * axis (Dims 256 1 1) 1
   \<and> axis (Dims 1000 1 1) 2 = axis (Dims 4 1 1) 2 * axis (Dims 256 1 1) 2
   \<and> configure_launch example_block_and_grid =
     Returned \<lparr>bd = Dims 256 1 1, gd = Dims 4 1 1, ogd = Dims 1024 1 1, shared_memory = 0,
               covers_full_blocks = True\<rparr>
   \<and> axis (Dims 1024 1 1) 0 = axis (Dims 4 1 1) 0 * axis (Dims 256 1 1) 0"
  using resolved_geometry_covers_overall [OF example_configure_launch] example_configure_launch
    resolved_geometry_covers_overall [OF example_configure_launch_grid] example_configure_launch_grid
  by (simp add: example_block_and_overall_def example_block_and_grid_def)

text \<open>
  C2 as stated fails on the scenario of the specification itself: block dimensions
  (256, 1, 1) and overall dimensions (1000, 1, 1) resolve to the grid (4, 1, 1), and
  4 * 256 is not 1000.
\<close>

theorem resolved_geometry_counterexample:
  "configure_launch example_block_and_overall =
     Returned \<lparr>bd = Dims 256 1 1, gd = Dims 4 1 1, ogd = Dims 1000 1 1, shared_memory = 0,
               covers_full_blocks = False\<rparr>
   \<and> axis (Dims 1000 1 1) 0 \<noteq> axis (Dims 4 1 1) 0 * axis (Dims 256 1 1) 0"
  by (simp add: configure_launch_def deduce_missing_def example_block_and_overall_def
        full_blocks_def example_ceil_div)


section \<open>The first parse of the command line and the sequence of \<open>main\<close>\<close>

lemma forced_components_both:
  assumes "arg_grid_dimensions pr \<noteq> None" "arg_overall_grid_dimensions pr \<noteq> None"
  shows "\<not> returns (forced_components pr)"
proof (cases "arg_block_dimensions pr")
  case None
  then show ?thesis using assms by (simp add: forced_components_def die_def)
next
  case (Some ds)
  then show ?thesis using assms by (simp add: forced_components_def die_def)
qed

text \<open>What a normal return of the first parse tells about its stages and its result.\<close>

lemma parse_Returned:
  assumes "parse_command_line_initially env pr = Returned opts"
  shows "need_to_exit pr = Returned ()"
    and "\<exists>u. select_ecosystem pr = Returned (u, gpu_ecosystem opts)"
    and "returns (forced_components pr)"
    and "check_registered env (key (infer_kernel_names env pr)) = Returned ()"
    and "compile_only opts = arg_compile_only pr"
proof -
  from assms obtain u eco forced where
      a: "need_to_exit pr = Returned ()" and
      b: "select_ecosystem pr = Returned (u, eco)" and
      f: "forced_components pr = Returned forced" and
      g: "check_registered env (key (infer_kernel_names env pr)) = Returned ()" and
      r: "gpu_ecosystem opts = eco" "compile_only opts = arg_compile_only pr"
    unfolding parse_command_line_initially_def
    by (fastforce dest!: and_then_Returned split: prod.splits)
  show "need_to_exit pr = Returned ()" by (rule a)
  show "\<exists>u. select_ecosystem pr = Returned (u, gpu_ecosystem opts)" using b r by simp
  show "returns (forced_components pr)" using f by simp
  show "check_registered env (key (infer_kernel_names env pr)) = Returned ()" by (rule g)
  show "compile_only opts = arg_compile_only pr" using r by simp
qed

lemma check_directories_Exit: "check_directories env ps = Exit c \<Longrightarrow> c = EXIT_FAILURE"
  by (induction ps) (auto simp: die_def split: if_splits)

lemma forced_components_Exit: "forced_components pr = Exit c \<Longrightarrow> c = EXIT_FAILURE"
  unfolding forced_components_def
  by (auto simp: die_def dest!: and_then_Exit split: option.splits if_splits)

text \<open>
  The first parse ends the process with the exit code 0 only on a request for the list
  of kernels or for help.
\<close>

lemma parse_Exit:
  assumes "parse_command_line_initially env pr = Exit c"
  shows "c = EXIT_FAILURE \<or> (c = EXIT_SUCCESS \<and> (arg_list_kernels pr \<or> arg_help pr))"
proof -
  have 1: "need_to_exit pr = Exit c \<Longrightarrow> ?thesis"
    by (auto simp: need_to_exit_def split: if_splits)
  have 2: "select_ecosystem pr = Exit c \<Longrightarrow> ?thesis"
    by (auto simp: select_ecosystem_def Let_def die_def split: if_splits)
  have 3: "\<And>u. select_device_and_platform pr u = Exit c \<Longrightarrow> ?thesis"
    by (auto simp: select_device_and_platform_def die_def split: if_splits option.splits)
  have 4: "check_kernel_names env pr = Exit c \<Longrightarrow> ?thesis"
    by (auto simp: check_kernel_names_def split: if_splits option.splits)
  have 5: "\<And>eco k. resolve_source_file env pr eco k = Exit c \<Longrightarrow> ?thesis"
    by (auto simp: resolve_source_file_def Let_def die_def split: if_splits)
  have 6: "check_num_runs pr = Exit c \<Longrightarrow> ?thesis"
    by (auto simp: check_num_runs_def die_def split: if_splits)
  have 7: "check_ptx_output_file env pr = Exit c \<Longrightarrow> ?thesis"
    by (auto simp: check_ptx_output_file_def Let_def split: if_splits option.splits)
  have 8: "\<And>ps. check_directories env ps = Exit c \<Longrightarrow> ?thesis"
    by (auto dest: check_directories_Exit)
  have 9: "check_language_standard env pr = Exit c \<Longrightarrow> ?thesis"
    by (auto simp: check_language_standard_def Let_def split: if_splits option.splits)
  have 10: "forced_components pr = Exit c \<Longrightarrow> ?thesis"
    by (auto dest: forced_components_Exit)
  have 11: "\<And>k. check_registered env k = Exit c \<Longrightarrow> ?thesis"
    by (auto simp: check_registered_def die_def split: if_splits)
  from assms show ?thesis
    unfolding parse_command_line_initially_def
    by (fastforce dest!: and_then_Exit dest: 1 2 3 4 5 6 7 8 9 10 11 split: prod.splits)
qed

lemma EXIT_codes_differ: "EXIT_SUCCESS \<noteq> EXIT_FAILURE"
  by (simp add: EXIT_SUCCESS_def EXIT_FAILURE_def)

lemma resolve_source_file_success:
  assumes "need_to_exit pr = Returned ()"
  shows "resolve_source_file env pr eco (infer_kernel_names env pr) = Exit EXIT_SUCCESS \<longleftrightarrow>
           arg_help pr \<and> arg_kernel_source pr = None \<and>
           \<not> file_exists env (inferred_source_file env pr eco)"
proof -
  have names: "arg_kernel_source pr = None \<Longrightarrow>
                 arg_kernel_key pr \<noteq> None \<or> arg_kernel_function pr \<noteq> None"
    using assms by (auto simp: need_to_exit_def split: if_splits)
  show ?thesis
  proof (cases "arg_kernel_source pr")
    case None
    with names have n: "arg_kernel_key pr \<noteq> None \<or> arg_kernel_function pr \<noteq> None" by simp
    show ?thesis
    proof (cases "arg_kernel_function pr")
      case None' : None
      with n None show ?thesis
        by (auto simp: resolve_source_file_def inferred_source_file_def Let_def die_def
              EXIT_codes_differ [symmetric])
    next
      case (Some f)
      with None show ?thesis
        by (auto simp: resolve_source_file_def inferred_source_file_def infer_kernel_names_def
              Let_def die_def EXIT_codes_differ [symmetric])
    qed
  next
    case (Some src)
    then show ?thesis by (simp add: resolve_source_file_def)
  qed
qed

text \<open>The first parse ends the process with the exit code 0 exactly in the three places.\<close>

lemma parse_Exit_success_iff:
  "parse_command_line_initially env pr = Exit EXIT_SUCCESS \<longleftrightarrow> answered_with_exit_success env pr"
proof (cases "need_to_exit pr")
  case (Returned u)
  then have r: "need_to_exit pr = Returned ()" by simp
  from r have nl: "\<not> arg_list_kernels pr"
    and names: "\<not> (arg_kernel_key pr = None \<and> arg_kernel_function pr = None \<and> arg_kernel_source pr = None)"
    by (auto simp: need_to_exit_def split: if_splits)
  show ?thesis
  proof (cases "select_ecosystem pr")
    case sel: (Returned ue)
    obtain use_opencl eco where ue: "ue = (use_opencl, eco)" by (cases ue)
    show ?thesis
    proof (cases "select_device_and_platform pr use_opencl")
      case dev: (Returned dp)
      obtain d p where dp: "dp = (d, p)" by (cases dp)
      show ?thesis
      proof (cases "check_kernel_names env pr")
        case nam: (Returned v)
        show ?thesis
        proof (cases "resolve_source_file env pr eco (infer_kernel_names env pr) = Exit EXIT_SUCCESS")
          case True
          then have "parse_command_line_initially env pr = Exit EXIT_SUCCESS"
            using r sel ue dev dp nam by (simp add: parse_command_line_initially_def)
          moreover have "answered_with_exit_success env pr"
            using True resolve_source_file_success [OF r, of env eco] sel ue dev nam
            by (auto simp: answered_with_exit_success_def)
          ultimately show ?thesis by simp
        next
          case False
          have 6: "\<And>c. check_num_runs pr = Exit c \<Longrightarrow> c = EXIT_FAILURE"
            by (auto simp: check_num_runs_def die_def split: if_splits)
          have 7: "\<And>c. check_ptx_output_file env pr = Exit c \<Longrightarrow> c = EXIT_FAILURE"
            by (auto simp: check_ptx_output_file_def Let_def split: if_splits option.splits)
          have 9: "\<And>c. check_language_standard env pr = Exit c \<Longrightarrow> c = EXIT_FAILURE"
            by (auto simp: check_language_standard_def Let_def split: if_splits option.splits)
          have 11: "\<And>k c. check_registered env k = Exit c \<Longrightarrow> c = EXIT_FAILURE"
            by (auto simp: check_registered_def die_def split: if_splits)
          have "parse_command_line_initially env pr \<noteq> Exit EXIT_SUCCESS"
          proof
            assume "parse_command_line_initially env pr = Exit EXIT_SUCCESS"
            then show False
              using r sel ue dev dp nam False EXIT_codes_differ
              unfolding parse_command_line_initially_def
              by (fastforce dest!: and_then_Exit dest: 6 7 9 11 check_directories_Exit
                    forced_components_Exit)
          qed
          moreover have "\<not> answered_with_exit_success env pr"
            using False resolve_source_file_success [OF r, of env eco] sel ue nl names
            by (auto simp: answered_with_exit_success_def)
          ultimately show ?thesis by simp
        qed
      next
        case (Exit c)
        then have "c = EXIT_FAILURE"
          by (auto simp: check_kernel_names_def split: if_splits option.splits)
        then show ?thesis
          using r sel ue dev dp Exit nl names EXIT_codes_differ
          by (auto simp: parse_command_line_initially_def answered_with_exit_success_def)
      next
        case (Thrown e)
        then show ?thesis
          using r sel ue dev dp nl names
          by (auto simp: parse_command_line_initially_def answered_with_exit_success_def)
      qed
    next
      case (Exit c)
      then have "c = EXIT_FAILURE"
        by (auto simp: select_device_and_platform_def die_def split: if_splits option.splits)
      then show ?thesis
        using r sel ue Exit nl names EXIT_codes_differ
        by (auto simp: parse_command_line_initially_def answered_with_exit_success_def)
    next
      case (Thrown e)
      then show ?thesis
        using r sel ue nl names
        by (auto simp: parse_command_line_initially_def answered_with_exit_success_def)
    qed
  next
    case (Exit c)
    then have "c = EXIT_FAILURE"
      by (auto simp: select_ecosystem_def Let_def die_def split: if_splits)
    then show ?thesis
      using r Exit nl names EXIT_codes_differ
      by (auto simp: parse_command_line_initially_def answered_with_exit_success_def)
  next
    case (Thrown e)
    then show ?thesis
      using r nl names
      by (auto simp: parse_command_line_initially_def answered_with_exit_success_def)
  qed
next
  case (Exit c)
  then have p: "parse_command_line_initially env pr = Exit c"
    by (simp add: parse_command_line_initially_def)
  from Exit show ?thesis unfolding p
    by (auto simp: need_to_exit_def answered_with_exit_success_def EXIT_codes_differ
          EXIT_codes_differ [symmetric] split: if_splits)
next
  case (Thrown e)
  then show ?thesis by (simp add: need_to_exit_def split: if_splits)
qed

lemma parse_fatal_iff:
  assumes "\<not> returns (parse_command_line_initially env pr)"
  shows "fatal (parse_command_line_initially env pr) \<longleftrightarrow> \<not> answered_with_exit_success env pr"
proof (cases "parse_command_line_initially env pr")
  case (Returned x)
  then show ?thesis using assms by simp
next
  case (Exit c)
  from parse_Exit [OF Exit] have "c = EXIT_FAILURE \<or> c = EXIT_SUCCESS" by auto
  then show ?thesis
  proof
    assume c: "c = EXIT_FAILURE"
    then have "parse_command_line_initially env pr \<noteq> Exit EXIT_SUCCESS"
      using Exit EXIT_codes_differ by simp
    then show ?thesis using Exit c parse_Exit_success_iff [of env pr]
      by (simp add: EXIT_FAILURE_def)
  next
    assume c: "c = EXIT_SUCCESS"
    then show ?thesis using Exit parse_Exit_success_iff [of env pr]
      by (simp add: EXIT_SUCCESS_def)
  qed
next
  case (Thrown e)
  then show ?thesis using parse_Exit_success_iff [of env pr] by simp
qed

lemma main_when_parse_ends:
  assumes "\<not> returns (parse_command_line_initially env pr)"
  shows "fst (main env denv world pr) = []"
    and "\<not> returns (snd (main env denv world pr))"
    and "fatal (snd (main env denv world pr)) = fatal (parse_command_line_initially env pr)"
  using assms
  by (cases "parse_command_line_initially env pr"; simp add: main_def)+

lemma run_steps_started: "set (fst (run_steps world ss)) \<subseteq> set ss"
  by (induction ss) (auto split: outcome.splits prod.splits)

lemma run_steps_all_return:
  "\<forall>s \<in> set ss. world s = Returned () \<Longrightarrow> run_steps world ss = (ss, Returned ())"
  by (induction ss) auto

lemmas parse_defs =
  parse_command_line_initially_def need_to_exit_def select_ecosystem_def
  select_device_and_platform_def check_kernel_names_def clipped_key_def
  infer_kernel_names_def resolve_source_file_def check_num_runs_def
  check_ptx_output_file_def check_language_standard_def forced_components_def
  check_registered_def example_environment_def example_command_line_def
  die_def EXIT_FAILURE_def EXIT_SUCCESS_def

text \<open>
  C3, amended. When both the grid dimensions and the overall grid dimensions are on the
  command line, the first parse does not return, whatever their values, so \<open>main\<close>
  starts none of its steps; and the process ends with a failure except in the three
  places where the first parse answers the command line with the exit code 0: the list of
  kernels is requested, or help is requested with no source file named and either no
  kernel is named at all or, the earlier selections and checks having returned, the
  inferred source file does not exist.
\<close>

theorem both_grid_specifications_end_the_run:
  assumes "arg_grid_dimensions pr \<noteq> None" and "arg_overall_grid_dimensions pr \<noteq> None"
  shows "fst (main env denv world pr) = [] \<and>
         \<not> returns (snd (main env denv world pr)) \<and>
         (fatal (snd (main env denv world pr)) \<longleftrightarrow> \<not> answered_with_exit_success env pr)"
proof -
  have n: "\<not> returns (parse_command_line_initially env pr)"
  proof
    assume "returns (parse_command_line_initially env pr)"
    then obtain opts where "parse_command_line_initially env pr = Returned opts"
      by (cases "parse_command_line_initially env pr") simp_all
    from parse_Returned(3) [OF this] forced_components_both [OF assms] show False by simp
  qed
  from main_when_parse_ends [OF n, of denv world] parse_fatal_iff [OF n] show ?thesis by simp
qed

lemmas answered_defs =
  answered_with_exit_success_def inferred_source_file_def select_ecosystem_def
  select_device_and_platform_def check_kernel_names_def clipped_key_def
  example_environment_def example_command_line_def

theorem both_grid_specifications_end_the_run_witness:
  "arg_grid_dimensions (example_command_line\<lparr>arg_grid_dimensions := Some [4],
       arg_overall_grid_dimensions := Some [1000]\<rparr>) \<noteq> None \<and>
   arg_overall_grid_dimensions (example_command_line\<lparr>arg_grid_dimensions := Some [4],
       arg_overall_grid_dimensions := Some [1000]\<rparr>) \<noteq> None \<and>
   \<not> answered_with_exit_success example_environment
       (example_command_line\<lparr>arg_grid_dimensions := Some [4],
          arg_overall_grid_dimensions := Some [1000]\<rparr>) \<and>
   fst (main example_environment example_devices example_world
          (example_command_line\<lparr>arg_grid_dimensions := Some [4],
             arg_overall_grid_dimensions := Some [1000]\<rparr>)) = [] \<and>
   fatal (snd (main example_environment example_devices example_world
          (example_command_line\<lparr>arg_grid_dimensions := Some [4],
             arg_overall_grid_dimensions := Some [1000]\<rparr>))) \<and>
   \<not> answered_with_exit_success example_environment
       (example_command_line\<lparr>arg_help := True, arg_grid_dimensions := Some [4],
          arg_overall_grid_dimensions := Some [1000]\<rparr>) \<and>
   fatal (snd (main example_environment example_devices example_world
          (example_command_line\<lparr>arg_help := True, arg_grid_dimensions := Some [4],
             arg_overall_grid_dimensions := Some [1000]\<rparr>))) \<and>
   returns (parse_command_line_initially example_environment
          (example_command_line\<lparr>arg_grid_dimensions := Some [4]\<rparr>))"
proof -
  let ?a = "example_command_line\<lparr>arg_grid_dimensions := Some [4],
             arg_overall_grid_dimensions := Some [1000]\<rparr>"
  let ?b = "example_command_line\<lparr>arg_help := True, arg_grid_dimensions := Some [4],
             arg_overall_grid_dimensions := Some [1000]\<rparr>"
  have a: "\<not> answered_with_exit_success example_environment ?a"
    by (simp add: answered_defs)
  have b: "\<not> answered_with_exit_success example_environment ?b"
    by (simp add: answered_defs)
  have r: "returns (parse_command_line_initially example_environment
          (example_command_line\<lparr>arg_grid_dimensions := Some [4]\<rparr>))"
    by (simp add: parse_defs)
  show ?thesis
    using both_grid_specifications_end_the_run [where env = example_environment
        and denv = example_devices and world = example_world and pr = ?a]
      both_grid_specifications_end_the_run [where env = example_environment
        and denv = example_devices and world = example_world and pr = ?b]
      a b r
    by (simp add: example_command_line_def)
qed

text \<open>
  C3 as stated fails: with \<open>--list-kernels\<close> on the command line the process prints the
  keys and ends with the exit code 0, whatever else is given.
\<close>

theorem both_grid_specifications_counterexample:
  "arg_grid_dimensions (example_command_line\<lparr>arg_list_kernels := True,
       arg_grid_dimensions := Some [4], arg_overall_grid_dimensions := Some [1000]\<rparr>) \<noteq> None \<and>
   arg_overall_grid_dimensions (example_command_line\<lparr>arg_list_kernels := True,
       arg_grid_dimensions := Some [4], arg_overall_grid_dimensions := Some [1000]\<rparr>) \<noteq> None \<and>
   main example_environment example_devices example_world
     (example_command_line\<lparr>arg_list_kernels := True,
        arg_grid_dimensions := Some [4], arg_overall_grid_dimensions := Some [1000]\<rparr>)
     = ([], Exit 0)"
  by (simp add: main_def parse_defs)

text \<open>
  C7, amended. With neither \<open>--cuda\<close> nor \<open>--opencl\<close> on the command line the
  selected ecosystem is CUDA, and it is the ecosystem of the options that the first parse
  returns. With both flags on, the selection fails and the first parse never returns; the
  process ends there with \<open>EXIT_FAILURE\<close> unless the earlier check for the list of
  kernels, or for a command line that names no kernel, has already ended it.
\<close>

theorem backend_selection:
  "(arg_cuda pr = None \<and> arg_opencl pr = None \<longrightarrow>
      select_ecosystem pr = Returned (False, cuda) \<and>
      (\<forall>opts. parse_command_line_initially env pr = Returned opts \<longrightarrow> gpu_ecosystem opts = cuda)) \<and>
   (arg_cuda pr = Some True \<and> arg_opencl pr = Some True \<longrightarrow>
      select_ecosystem pr = Exit EXIT_FAILURE \<and>
      \<not> returns (parse_command_line_initially env pr) \<and>
      (need_to_exit pr = Returned () \<longrightarrow>
         parse_command_line_initially env pr = Exit EXIT_FAILURE))"
proof (intro conjI impI)
  assume a: "arg_cuda pr = None \<and> arg_opencl pr = None"
  then show s: "select_ecosystem pr = Returned (False, cuda)"
    by (simp add: select_ecosystem_def)
  show "\<forall>opts. parse_command_line_initially env pr = Returned opts \<longrightarrow> gpu_ecosystem opts = cuda"
    using parse_Returned(2) s by fastforce
next
  assume a: "arg_cuda pr = Some True \<and> arg_opencl pr = Some True"
  then show s: "select_ecosystem pr = Exit EXIT_FAILURE"
    by (simp add: select_ecosystem_def die_def)
  show "\<not> returns (parse_command_line_initially env pr)"
  proof
    assume "returns (parse_command_line_initially env pr)"
    then obtain opts where "parse_command_line_initially env pr = Returned opts"
      by (cases "parse_command_line_initially env pr") simp_all
    from parse_Returned(2) [OF this] s show False by simp
  qed
  assume "need_to_exit pr = Returned ()"
  then show "parse_command_line_initially env pr = Exit EXIT_FAILURE"
    using s by (simp add: parse_command_line_initially_def)
qed

lemma example_parse:
  "parse_command_line_initially example_environment example_command_line =
     Returned
       \<lparr>gpu_ecosystem = cuda, gpu_device_id = 0, platform_id = 0,
        kernel = \<lparr>key = ''vectorAdd'', function_name = [], source_file = ''./vectorAdd.cu''\<rparr>,
        kernel_sources_base_path = ''.'', num_runs = 1,
        buffer_base_paths_input = ''.'', buffer_base_paths_output = ''.'',
        write_ptx_to_file = False, generate_line_info = True, ptx_output_file = [],
        overwrite_allowed = False, write_output_buffers_to_files = True,
        compile_only = False, language_standard = None, compile_in_debug_mode = False,
        zero_output_buffers_option = False, time_with_events = False,
        forced_launch_config_components =
          \<lparr>block_dimensions = None, grid_dimensions = None,
           overall_grid_dimensions = None, dynamic_shared_memory_size = None\<rparr>,
        preprocessor_definitions = {}, include_dir_paths = [], preinclude_files = []\<rparr>"
  by (simp add: parse_defs)

theorem backend_selection_witness:
  "arg_cuda example_command_line = None \<and> arg_opencl example_command_line = None \<and>
   select_ecosystem example_command_line = Returned (False, cuda) \<and>
   returns (parse_command_line_initially example_environment example_command_line) \<and>
   arg_cuda (example_command_line\<lparr>arg_cuda := Some True, arg_opencl := Some True\<rparr>) = Some True \<and>
   arg_opencl (example_command_line\<lparr>arg_cuda := Some True, arg_opencl := Some True\<rparr>) = Some True \<and>
   need_to_exit (example_command_line\<lparr>arg_cuda := Some True, arg_opencl := Some True\<rparr>) = Returned () \<and>
   parse_command_line_initially example_environment
     (example_command_line\<lparr>arg_cuda := Some True, arg_opencl := Some True\<rparr>) = Exit EXIT_FAILURE"
proof -
  have n: "need_to_exit (example_command_line\<lparr>arg_cuda := Some True, arg_opencl := Some True\<rparr>) = Returned ()"
    by (simp add: need_to_exit_def example_command_line_def)
  show ?thesis
    using backend_selection [where pr = example_command_line and env = example_environment]
      backend_selection [where pr = "example_command_line\<lparr>arg_cuda := Some True, arg_opencl := Some True\<rparr>"
        and env = example_environment] n example_parse
    by (simp add: example_command_line_def)
qed

text \<open>
  C7 as stated fails: with both flags on and \<open>--help\<close>, on a command line that names no
  kernel, the process prints the usage text and ends with the exit code 0.
\<close>

theorem backend_selection_counterexample:
  "arg_cuda (example_command_line\<lparr>arg_help := True, arg_kernel_key := None,
       arg_cuda := Some True, arg_opencl := Some True\<rparr>) = Some True \<and>
   arg_opencl (example_command_line\<lparr>arg_help := True, arg_kernel_key := None,
       arg_cuda := Some True, arg_opencl := Some True\<rparr>) = Some True \<and>
   main example_environment example_devices example_world
     (example_command_line\<lparr>arg_help := True, arg_kernel_key := None,
        arg_cuda := Some True, arg_opencl := Some True\<rparr>) = ([], Exit 0)"
  by (simp add: main_def parse_defs)

text \<open>
  C8, amended. When the key given on the command line is not registered, the first parse
  does not return, so \<open>main\<close> starts none of its steps: no device is initialised, no
  buffer is read or allocated. The process ends with a failure except in the three places
  where the first parse answers the command line with the exit code 0: the list of
  kernels is requested, or help is requested with no source file named and either no
  kernel is named at all or, the earlier selections and checks having returned, the
  inferred source file does not exist.
\<close>

theorem unregistered_key_ends_before_device_work:
  assumes "arg_kernel_key pr = Some k" and "\<not> can_produce_subclass env k"
  shows "fst (main env denv world pr) = [] \<and>
         \<not> returns (snd (main env denv world pr)) \<and>
         (fatal (snd (main env denv world pr)) \<longleftrightarrow> \<not> answered_with_exit_success env pr)"
proof -
  have k: "key (infer_kernel_names env pr) = k"
    using assms(1) by (simp add: infer_kernel_names_def)
  have n: "\<not> returns (parse_command_line_initially env pr)"
  proof
    assume "returns (parse_command_line_initially env pr)"
    then obtain opts where "parse_command_line_initially env pr = Returned opts"
      by (cases "parse_command_line_initially env pr") simp_all
    from parse_Returned(4) [OF this] k assms(2) show False
      by (simp add: check_registered_def die_def)
  qed
  from main_when_parse_ends [OF n, of denv world] parse_fatal_iff [OF n] show ?thesis by simp
qed

text \<open>
  The key \<open>foo\<close> is not registered and its source file \<open>foo.cu\<close> exists: the run gets
  to the check of the registry, which ends it, with and without \<open>--help\<close>; were the key
  registered, the first parse would return.
\<close>

theorem unregistered_key_ends_before_device_work_witness:
  "arg_kernel_key (example_command_line\<lparr>arg_kernel_key := Some ''foo''\<rparr>) = Some ''foo'' \<and>
   \<not> can_produce_subclass example_environment ''foo'' \<and>
   \<not> answered_with_exit_success example_environment
       (example_command_line\<lparr>arg_kernel_key := Some ''foo''\<rparr>) \<and>
   fst (main example_environment example_devices example_world
          (example_command_line\<lparr>arg_kernel_key := Some ''foo''\<rparr>)) = [] \<and>
   fatal (snd (main example_environment example_devices example_world
          (example_command_line\<lparr>arg_kernel_key := Some ''foo''\<rparr>))) \<and>
   \<not> answered_with_exit_success example_environment
       (example_command_line\<lparr>arg_help := True, arg_kernel_key := Some ''foo''\<rparr>) \<and>
   fatal (snd (main example_environment example_devices example_world
          (example_command_line\<lparr>arg_help := True, arg_kernel_key := Some ''foo''\<rparr>))) \<and>
   returns (parse_command_line_initially
          (example_environment\<lparr>can_produce_subclass := (\<lambda>k. k = ''foo'')\<rparr>)
          (example_command_line\<lparr>arg_kernel_key := Some ''foo''\<rparr>))"
proof -
  let ?a = "example_command_line\<lparr>arg_kernel_key := Some ''foo''\<rparr>"
  let ?b = "example_command_line\<lparr>arg_help := True, arg_kernel_key := Some ''foo''\<rparr>"
  have a: "\<not> answered_with_exit_success example_environment ?a"
    by (simp add: answered_defs)
  have b: "\<not> answered_with_exit_success example_environment ?b"
    by (simp add: answered_defs)
  have r: "returns (parse_command_line_initially
          (example_environment\<lparr>can_produce_subclass := (\<lambda>k. k = ''foo'')\<rparr>) ?a)"
    by (simp add: parse_defs)
  show ?thesis
    using unregistered_key_ends_before_device_work [where env = example_environment
        and denv = example_devices and world = example_world and k = "''foo''" and pr = ?a]
      unregistered_key_ends_before_device_work [where env = example_environment
        and denv = example_devices and world = example_world and k = "''foo''" and pr = ?b]
      a b r
    by (simp add: example_command_line_def example_environment_def)
qed

text \<open>
  C8 as stated fails: with the unregistered key \<open>bar\<close>, no file \<open>bar.cu\<close> and \<open>--help\<close>,
  the process prints the usage text and ends with the exit code 0.
\<close>

theorem unregistered_key_counterexample:
  "arg_kernel_key (example_command_line\<lparr>arg_help := True, arg_kernel_key := Some ''bar''\<rparr>)
     = Some ''bar'' \<and>
   \<not> can_produce_subclass example_environment ''bar'' \<and>
   main example_environment example_devices example_world
     (example_command_line\<lparr>arg_help := True, arg_kernel_key := Some ''bar''\<rparr>) = ([], Exit 0)"
  by (simp add: main_def parse_defs)

text \<open>
  C10. In compile-only mode \<open>main\<close> starts no step after the build of the kernel and
  the optional writing of the intermediate representation: no buffer file is read, no
  buffer is created, no argument is marshalled and no kernel is launched. When the first
  parse returns and every step up to there returns, \<open>main\<close> returns \<open>EXIT_SUCCESS\<close>,
  which is 0, right after them.
\<close>

theorem compile_only_stops_after_build:
  assumes "arg_compile_only pr"
  shows "set (fst (main env denv world pr)) \<subseteq>
           {step_ensure_gpu_device_validity, step_initialize_device, step_produce_kernel_adapter,
            step_parse_command_line_for_kernel, step_build_kernel,
            step_write_intermediate_representation} \<and>
         (\<forall>opts. parse_command_line_initially env pr = Returned opts \<and>
                 ensure_gpu_device_validity denv (gpu_ecosystem opts) (Some (platform_id opts))
                   (gpu_device_id opts) (write_ptx_to_file opts) = Returned () \<and>
                 (\<forall>s \<in> set (steps_until_built opts).
                    s \<noteq> step_ensure_gpu_device_validity \<longrightarrow> world s = Returned ()) \<longrightarrow>
            main env denv world pr = (steps_until_built opts, Returned 0))"
proof (cases "parse_command_line_initially env pr")
  case (Returned opts)
  let ?w = "world(step_ensure_gpu_device_validity :=
                 ensure_gpu_device_validity denv (gpu_ecosystem opts) (Some (platform_id opts))
                   (gpu_device_id opts) (write_ptx_to_file opts))"
  have co: "compile_only opts" using parse_Returned(5) [OF Returned] assms by simp
  obtain started r where rs: "run_steps ?w (steps_until_built opts) = (started, r)"
    by (cases "run_steps ?w (steps_until_built opts)") auto
  have m: "fst (main env denv world pr) = started"
    using Returned co rs by (cases r) (simp_all add: main_def)
  have "set started \<subseteq> set (steps_until_built opts)"
    using run_steps_started [of ?w "steps_until_built opts"] rs by simp
  then have 1: "set (fst (main env denv world pr)) \<subseteq>
           {step_ensure_gpu_device_validity, step_initialize_device, step_produce_kernel_adapter,
            step_parse_command_line_for_kernel, step_build_kernel,
            step_write_intermediate_representation}"
    unfolding m by (auto simp: steps_until_built_def split: if_splits)
  have 2: "main env denv world pr = (steps_until_built opts, Returned 0)"
    if v: "ensure_gpu_device_validity denv (gpu_ecosystem opts) (Some (platform_id opts))
                   (gpu_device_id opts) (write_ptx_to_file opts) = Returned ()"
      and w: "\<forall>s \<in> set (steps_until_built opts).
                s \<noteq> step_ensure_gpu_device_validity \<longrightarrow> world s = Returned ()"
  proof -
    have "run_steps ?w (steps_until_built opts) = (steps_until_built opts, Returned ())"
      by (rule run_steps_all_return) (use v w in simp)
    then show ?thesis
      using Returned co by (simp add: main_def EXIT_SUCCESS_def)
  qed
  show ?thesis using 1 2 Returned by auto
next
  case (Exit c)
  then show ?thesis by (simp add: main_def)
next
  case (Thrown e)
  then show ?thesis by (simp add: main_def)
qed

theorem compile_only_stops_after_build_witness:
  "arg_compile_only (example_command_line\<lparr>arg_compile_only := True\<rparr>) \<and>
   main example_environment example_devices example_world
     (example_command_line\<lparr>arg_compile_only := True\<rparr>)
     = ([step_ensure_gpu_device_validity, step_initialize_device, step_produce_kernel_adapter,
         step_parse_command_line_for_kernel, step_build_kernel], Returned 0)"
proof -
  let ?pr = "example_command_line\<lparr>arg_compile_only := True\<rparr>"
  obtain opts where p: "parse_command_line_initially example_environment ?pr = Returned opts"
    and o: "gpu_ecosystem opts = cuda" "platform_id opts = 0" "gpu_device_id opts = 0"
      "\<not> write_ptx_to_file opts"
    by (simp add: parse_defs)
  have v: "ensure_gpu_device_validity example_devices (gpu_ecosystem opts) (Some (platform_id opts))
             (gpu_device_id opts) (write_ptx_to_file opts) = Returned ()"
    using o by (simp add: ensure_gpu_device_validity_def example_devices_def)
  have w: "\<forall>s \<in> set (steps_until_built opts).
             s \<noteq> step_ensure_gpu_device_validity \<longrightarrow> example_world s = Returned ()"
    by (simp add: example_world_def)
  have a: "arg_compile_only ?pr" by simp
  from compile_only_stops_after_build [OF a, of example_environment example_devices example_world]
    p v w
  have "main example_environment example_devices example_world ?pr = (steps_until_built opts, Returned 0)"
    by blast
  then show ?thesis using o by (simp add: steps_until_built_def)
qed

end
